(* ===== verification/Prelude.thy ===== *)
theory Prelude
  imports Main "HOL-Library.Sublist" "HOL-Library.Multiset"
begin

text \<open>
  Shared vocabulary of the development: the Python exceptions the service can raise
  and how the HTTP layer classifies them, the Python string and list primitives the
  source calls (\<open>str.split\<close>, \<open>str.join\<close>, slicing with a possibly negative bound),
  the constants of \<open>src/config.py\<close>, and the generic lemmas on them that the component
  theories use.  The collection \<open>pystr\<close> gathers the rewrite rules of the string
  primitives, so that component proofs can say \<open>simp add: pystr\<close>.
\<close>

named_theorems pystr "rewrite rules for the Python string primitives"

section \<open>Python exceptions\<close>

text \<open>
  Every exception the modelled code can raise, with the message \<open>str(e)\<close> where the
  HTTP layer shows it.  \<open>ValueError\<close> is the only class the endpoints of
  \<open>src/main.py\<close> map to status 400; every other exception falls into their
  \<open>except Exception\<close> branch and gives 500.
\<close>

datatype py_error =
    ValueError string
  | IndexError string
  | NameError string
  | AssertionError
  | FileNotFoundError string
  | ProviderError string
  | PdfError string

type_synonym 'a result = "py_error + 'a"

fun is_value_error :: "py_error \<Rightarrow> bool" where
  "is_value_error (ValueError _) = True"
| "is_value_error _ = False"

fun exc_message :: "py_error \<Rightarrow> string" where
  "exc_message (ValueError m) = m"
| "exc_message (IndexError m) = m"
| "exc_message (NameError m) = m"
| "exc_message AssertionError = []"
| "exc_message (FileNotFoundError p) =
     ''[Errno 2] No such file or directory: '' @ [CHR 0x27] @ p @ [CHR 0x27]"
| "exc_message (ProviderError m) = m"
| "exc_message (PdfError m) = m"

section \<open>Configuration constants (src/config.py)\<close>

definition ANSWERING_MODEL :: string where
  "ANSWERING_MODEL = ''gpt-3.5-turbo''"

definition EMBEDDING_MODEL :: string where
  "EMBEDDING_MODEL = ''text-embedding-ada-002''"

definition MAX_TOKENS :: int where
  "MAX_TOKENS = 1600"

definition BATCH_SIZE :: nat where
  "BATCH_SIZE = 50"

definition TOP_K :: int where
  "TOP_K = 2"

definition DEBUG :: bool where
  "DEBUG = False"

text \<open>The API key is redacted in the source as given; the model keeps the literal.\<close>

definition MODEL_API_KEY :: string where
  "MODEL_API_KEY = ''******''"

definition MONGO_URI :: string where
  "MONGO_URI = ''mongodb://localhost:27017''"

definition MONGO_DB_NAME :: string where
  "MONGO_DB_NAME = ''benefit_search''"

definition MONGO_COLLECTION_NAME :: string where
  "MONGO_COLLECTION_NAME = ''embeddings''"

section \<open>Python list and string primitives\<close>

text \<open>
  \<open>xs[:n]\<close> for a Python int \<open>n\<close>: a negative bound counts from the end, and a bound
  beyond either end is clamped.
\<close>

definition py_take :: "int \<Rightarrow> 'a list \<Rightarrow> 'a list" where
  "py_take n xs = take (nat (if n < 0 then int (length xs) + n else n)) xs"

text \<open>\<open>sep.join(xs)\<close>.\<close>

fun str_join :: "string \<Rightarrow> string list \<Rightarrow> string" where
  "str_join sep [] = []"
| "str_join sep [x] = x"
| "str_join sep (x # y # zs) = x @ sep @ str_join sep (y # zs)"

text \<open>
  \<open>s.split(sep)\<close> for a non-empty separator scans left to right and cuts at every
  non-overlapping occurrence; \<open>acc\<close> is the piece being built.  An empty separator
  raises \<open>ValueError\<close>.
\<close>

fun split_aux :: "string \<Rightarrow> string \<Rightarrow> string \<Rightarrow> string list" where
  "split_aux sep acc [] = [acc]"
| "split_aux sep acc (c # cs) =
     (if sep \<noteq> [] \<and> prefix sep (c # cs)
      then acc # split_aux sep [] (drop (length sep) (c # cs))
      else split_aux sep (acc @ [c]) cs)"

definition str_split :: "string \<Rightarrow> string \<Rightarrow> string list result" where
  "str_split s sep =
     (if sep = [] then Inl (ValueError ''empty separator'') else Inr (split_aux sep [] s))"

section \<open>Lemmas on the primitives\<close>

lemma str_join_Cons [pystr]:
  "str_join sep (x # xs) = (if xs = [] then x else x @ sep @ str_join sep xs)"
  by (cases xs) auto

lemma str_join_append_take_drop:
  assumes "0 < i" "i < length xs"
  shows "str_join sep (take i xs) @ sep @ str_join sep (drop i xs) = str_join sep xs"
  using assms
proof (induction xs arbitrary: i)
  case Nil
  then show ?case by simp
next
  case (Cons x xs)
  then obtain j where i: "i = Suc j" by (cases i) auto
  show ?case
  proof (cases "j = 0")
    case True
    with i Cons.prems show ?thesis by (simp add: str_join_Cons)
  next
    case False
    with i Cons.prems have IH: "str_join sep (take j xs) @ sep @ str_join sep (drop j xs) = str_join sep xs"
      by (intro Cons.IH) auto
    from False i Cons.prems have "take j xs \<noteq> []" "xs \<noteq> []"
      by auto
    then have "str_join sep (take i (x # xs)) = x @ sep @ str_join sep (take j xs)"
      using i by (simp add: str_join_Cons)
    with IH \<open>xs \<noteq> []\<close> i show ?thesis by (simp add: str_join_Cons)
  qed
qed

lemma split_aux_nonempty [simp]: "split_aux sep acc s \<noteq> []"
  by (induction sep acc s rule: split_aux.induct) auto

lemma str_join_split_aux:
  "sep \<noteq> [] \<Longrightarrow> str_join sep (split_aux sep acc s) = acc @ s"
proof (induction sep acc s rule: split_aux.induct)
  case (1 sep acc)
  then show ?case by simp
next
  case (2 sep acc c cs)
  show ?case
  proof (cases "prefix sep (c # cs)")
    case True
    then have "sep @ drop (length sep) (c # cs) = c # cs"
      by (metis append_eq_conv_conj prefix_def)
    with True "2.IH"(1) "2.prems" show ?thesis by (simp add: str_join_Cons)
  next
    case False
    with "2.IH"(2) "2.prems" show ?thesis by simp
  qed
qed

lemma str_split_Inr [pystr]: "sep \<noteq> [] \<Longrightarrow> str_split s sep = Inr (split_aux sep [] s)"
  by (simp add: str_split_def)

lemma str_join_str_split:
  "str_split s sep = Inr cs \<Longrightarrow> str_join sep cs = s"
  by (auto simp: str_split_def str_join_split_aux split: if_splits)

lemma py_take_nonneg [pystr]: "0 \<le> n \<Longrightarrow> py_take n xs = take (nat n) xs"
  by (simp add: py_take_def)

lemma length_py_take_le: "length (py_take n xs) \<le> length xs"
  by (simp add: py_take_def)

lemma split_aux_leading [pystr]:
  "sep \<noteq> [] \<Longrightarrow> split_aux sep [] (sep @ s) = [] # split_aux sep [] s"
  by (cases sep) auto

end
