(* ===== verification/Tokenizer.thy ===== *)
theory Tokenizer
  imports Prelude
begin

text \<open>
  The tokenizer interface of \<open>src/create_embeddings.py\<close> and
  \<open>src/ai-compendium/api/predict_response.py\<close>: \<open>tiktoken.encoding_for_model(model)\<close>
  gives an encoding with \<open>encode\<close> and \<open>decode\<close>.  tiktoken is a library, so the model
  keeps it abstract: a tokenizer is a record of the two functions and the code is
  parameterised by the family \<open>tokenizers\<close> that maps a model name to its encoding.
  On top of it are the two helpers the source defines, \<open>num_tokens\<close> and
  \<open>truncated_string\<close>; the warning \<open>truncated_string\<close> prints is returned as a
  value, because the specification makes it the observable signal of a lossy split.
  \<open>char_tokenizer\<close> is a concrete instance (one token per character) used by the
  witnesses.
\<close>

record tokenizer =
  encode :: "string \<Rightarrow> nat list"
  decode :: "nat list \<Rightarrow> string"

type_synonym tokenizers = "string \<Rightarrow> tokenizer"

text \<open>The line \<open>Warning: Truncated string from N tokens to M tokens.\<close>\<close>

datatype warning = Truncated nat int

definition num_tokens :: "tokenizers \<Rightarrow> string \<Rightarrow> string \<Rightarrow> nat" where
  "num_tokens tk text model = length (encode (tk model) text)"

definition truncated_string ::
  "tokenizers \<Rightarrow> string \<Rightarrow> string \<Rightarrow> int \<Rightarrow> bool \<Rightarrow> string \<times> warning list" where
  "truncated_string tk string model max_tokens print_warning =
     (let encoding = tk model;
          encoded_string = encode encoding string;
          truncated = decode encoding (py_take max_tokens encoded_string)
      in (truncated,
          if print_warning \<and> int (length encoded_string) > max_tokens
          then [Truncated (length encoded_string) max_tokens] else []))"

text \<open>
  What a budget argument needs of an encoding: decoding a token list and encoding the
  text again never gives more tokens.  Byte-pair encodings do not promise this in
  general (a cut inside a multi-byte character decodes to a replacement character);
  the lemmas that need it say so.
\<close>

definition reencode_bounded :: "tokenizer \<Rightarrow> bool" where
  "reencode_bounded t \<longleftrightarrow> (\<forall>ts. length (encode t (decode t ts)) \<le> length ts)"

definition char_tokenizer :: tokenizer where
  "char_tokenizer = \<lparr>encode = map of_char, decode = map char_of\<rparr>"

definition char_tokenizers :: tokenizers where
  "char_tokenizers = (\<lambda>model. char_tokenizer)"

lemma truncated_string_warns:
  "snd (truncated_string tk s model m True) \<noteq> [] \<longleftrightarrow> int (num_tokens tk s model) > m"
  by (simp add: truncated_string_def num_tokens_def Let_def)

lemma truncated_string_bound:
  assumes "reencode_bounded (tk model)" "0 \<le> m"
  shows "int (num_tokens tk (fst (truncated_string tk s model m w)) model) \<le> m"
proof -
  let ?ts = "py_take m (encode (tk model) s)"
  have "length (encode (tk model) (decode (tk model) ?ts)) \<le> length ?ts"
    using assms(1) by (simp add: reencode_bounded_def)
  also have "length ?ts \<le> nat m"
    using assms(2) by (simp add: pystr)
  finally show ?thesis
    using assms(2) by (simp add: truncated_string_def num_tokens_def Let_def)
qed

lemma truncated_string_warning_shape:
  "w \<in> set (snd (truncated_string tk s model m True)) \<Longrightarrow>
     w = Truncated (length (encode (tk model) s)) m \<and> m < int (length (encode (tk model) s))"
  by (simp add: truncated_string_def Let_def split: if_splits)

lemma char_tokenizer_reencode_bounded: "reencode_bounded char_tokenizer"
  by (simp add: reencode_bounded_def char_tokenizer_def)

lemma char_tokenizers_num_tokens [simp]: "num_tokens char_tokenizers s model = length s"
  by (simp add: num_tokens_def char_tokenizers_def char_tokenizer_def)

lemma char_tokenizers_reencode_bounded: "reencode_bounded (char_tokenizers model)"
  by (simp add: char_tokenizers_def char_tokenizer_reencode_bounded)

end
