(* ===== verification/Services.thy ===== *)
theory Services
  imports Tokenizer
begin

text \<open>
  The interfaces the components share.  The document store is the Mongo collection of
  \<open>src/ai-compendium/__init__.py\<close>: a list of documents in insertion order, one per
  ingestion (\<open>insert_one\<close> appends, \<open>find\<close> filters and keeps that order).  A
  document is the dictionary \<open>create_embedding\<close> builds (\<open>src/create_embeddings.py\<close>,
  lines 197--203): a \<open>doc_id\<close> and its \<open>text_chunks\<close>, each with \<open>chunk_id\<close>,
  \<open>text\<close> (the field \<open>chunk_text\<close>, since \<open>text\<close> is a keyword) and \<open>embedding\<close>.  The embedding type \<open>'v\<close> is a parameter.

  The external services are a record passed to every operation that calls one: the
  tokenizer family, the embedding endpoint (\<open>openai.Embedding.create\<close>: a list of
  \<open>(index, embedding)\<close> items, or an error), the chat endpoint
  (\<open>openai.ChatCompletion.create\<close>, by model name and role/content messages), the PDF
  text extractor (\<open>pdftotext.PDF\<close>: the page texts) and the CSV writer of pandas.
\<close>

record 'v text_chunk =
  chunk_id :: nat
  chunk_text :: string
  embedding :: 'v

record 'v emb_doc =
  doc_id :: string
  text_chunks :: "'v text_chunk list"

type_synonym 'v collection = "'v emb_doc list"

definition insert_one :: "'v collection \<Rightarrow> 'v emb_doc \<Rightarrow> 'v collection" where
  "insert_one coll d = coll @ [d]"

definition find_docs :: "'v collection \<Rightarrow> string \<Rightarrow> 'v emb_doc list" where
  "find_docs coll key = filter (\<lambda>d. doc_id d = key) coll"

record 'v services =
  tokenizer_of :: tokenizers
  embed :: "string list \<Rightarrow> (nat \<times> 'v) list result"
  chat :: "string \<Rightarrow> (string \<times> string) list \<Rightarrow> string result"
  pdf_pages :: "string \<Rightarrow> string list result"
  df_to_csv :: "(string \<times> 'v) list \<Rightarrow> string"
  base_dir :: string

text \<open>
  The state the service changes: the file system (path to contents), the document
  collection, and what the process has printed of the truncation warnings.  An operation
  that raises still returns the state it reached: Python undoes no effect on an
  exception.
\<close>

record 'v app_state =
  files :: "string \<rightharpoonup> string"
  collection :: "'v collection"
  stdout :: "warning list"

text \<open>
  A well-formed stored document: its chunk ids are \<open>0, 1, \<dots>\<close> in order, as the
  specification requires (contiguous and unique).
\<close>

definition wf_doc :: "'v emb_doc \<Rightarrow> bool" where
  "wf_doc d \<longleftrightarrow> map chunk_id (text_chunks d) = [0..<length (text_chunks d)]"

lemma find_docs_append:
  "find_docs (coll @ extra) key = find_docs coll key @ find_docs extra key"
  by (simp add: find_docs_def)

lemma find_docs_insert_one_old:
  "find_docs coll key \<noteq> [] \<Longrightarrow> hd (find_docs (insert_one coll d) key) = hd (find_docs coll key)"
  by (simp add: insert_one_def find_docs_append)

lemma find_docs_stored_commute:
  assumes "\<forall>d\<in>set ds1. doc_id d = k1" "\<forall>d\<in>set ds2. doc_id d = k2" "k1 \<noteq> k2"
  shows "find_docs (coll @ ds1 @ ds2) k = find_docs (coll @ ds2 @ ds1) k"
proof -
  have "filter (\<lambda>d. doc_id d = k) ds1 = [] \<or> filter (\<lambda>d. doc_id d = k) ds2 = []"
    using assms by (auto simp: filter_empty_conv)
  then show ?thesis
    by (auto simp: find_docs_def)
qed

end
