(* ===== verification/Store.thy ===== *)
theory Store
  imports Services
begin

text \<open>
  The package initialiser \<open>src/ai-compendium/__init__.py\<close>.  On its first import it
  stores \<open>MODEL_API_KEY\<close> in the process environment as \<open>OPENAI_API_KEY\<close> and builds
  the collection handle \<open>MongoClient(MONGO_URI)[MONGO_DB_NAME][MONGO_COLLECTION_NAME]\<close>.
  pymongo connects lazily, so building the handles never fails; a handle is a reference,
  here a value of \<open>mongo_collection_ref\<close>, and the Mongo server is a store from such
  references to collections (\<open>'v mongo_server\<close>).  Python runs a package's initialiser
  once and caches the module, so every later \<open>from ai_compendium import
  mongo_collection\<close> (create_embeddings.py line 21, predict_response.py line 10) gets
  the same handle: the process record keeps that cache as \<open>loaded\<close>.  This is why the
  rest of the development has one collection in \<open>app_state\<close>.
\<close>

datatype mongo_client = MongoClient string

datatype mongo_database = MongoDatabase mongo_client string

datatype mongo_collection_ref = MongoCollection mongo_database string

text \<open>\<open>client[name]\<close> and \<open>database[name]\<close>: lazy handles, no server access.\<close>

fun get_database :: "mongo_client \<Rightarrow> string \<Rightarrow> mongo_database" where
  "get_database client name = MongoDatabase client name"

fun get_collection :: "mongo_database \<Rightarrow> string \<Rightarrow> mongo_collection_ref" where
  "get_collection db name = MongoCollection db name"

record process =
  environ :: "string \<rightharpoonup> string"
  loaded :: "mongo_collection_ref option"

definition init_ai_compendium :: "process \<Rightarrow> process \<times> mongo_collection_ref" where
  "init_ai_compendium p =
     (let p1 = p\<lparr>environ := (environ p)(''OPENAI_API_KEY'' \<mapsto> MODEL_API_KEY)\<rparr>;
          client = MongoClient MONGO_URI;
          mongodb = get_database client MONGO_DB_NAME;
          mongo_collection = get_collection mongodb MONGO_COLLECTION_NAME
      in (p1\<lparr>loaded := Some mongo_collection\<rparr>, mongo_collection))"

definition import_ai_compendium :: "process \<Rightarrow> process \<times> mongo_collection_ref" where
  "import_ai_compendium p =
     (case loaded p of
        Some mongo_collection \<Rightarrow> (p, mongo_collection)
      | None \<Rightarrow> init_ai_compendium p)"

type_synonym 'v mongo_server = "mongo_collection_ref \<Rightarrow> 'v collection"

text \<open>\<open>insert_one\<close> and \<open>find\<close> through a handle.\<close>

definition insert_one_at :: "'v mongo_server \<Rightarrow> mongo_collection_ref \<Rightarrow> 'v emb_doc \<Rightarrow> 'v mongo_server" where
  "insert_one_at srv c d = srv(c := insert_one (srv c) d)"

definition find_at :: "'v mongo_server \<Rightarrow> mongo_collection_ref \<Rightarrow> string \<Rightarrow> 'v emb_doc list" where
  "find_at srv c key = find_docs (srv c) key"

lemma import_ai_compendium_fresh:
  "loaded p = None \<Longrightarrow>
     import_ai_compendium p =
       (p\<lparr>environ := (environ p)(''OPENAI_API_KEY'' \<mapsto> MODEL_API_KEY),
          loaded := Some (MongoCollection (MongoDatabase (MongoClient MONGO_URI) MONGO_DB_NAME)
                                          MONGO_COLLECTION_NAME)\<rparr>,
        MongoCollection (MongoDatabase (MongoClient MONGO_URI) MONGO_DB_NAME) MONGO_COLLECTION_NAME)"
  by (simp add: import_ai_compendium_def init_ai_compendium_def Let_def)

lemma import_ai_compendium_loaded:
  "loaded p = Some c \<Longrightarrow> import_ai_compendium p = (p, c)"
  by (simp add: import_ai_compendium_def)

lemma find_at_insert_one_at:
  "find_at (insert_one_at srv c d) c' key =
     (if c' = c then find_docs (insert_one (srv c) d) key else find_at srv c' key)"
  by (simp add: find_at_def insert_one_at_def)



end
