(* ===== verification/Ranker.thy ===== *)
theory Ranker
  imports Complex_Main Store
begin

text \<open>
  The retriever of \<open>src/ai-compendium/api/predict_response.py\<close>:
  \<open>strings_ranked_by_similarity\<close> (lines 14--32).  It embeds the query, scores every
  chunk of the first document the cursor yields with \<open>relatedness_fn\<close>, sorts the
  (text, score) pairs by score with \<open>reverse=True\<close> and returns the first \<open>top_n\<close>
  texts and scores.  CPython implements \<open>reverse=True\<close> by reversing the list, sorting
  it stably and reversing it again, which is \<open>sort_desc\<close>; its specification, proved
  below, is the unique permutation that is sorted by decreasing score and keeps equal
  scores in input order.  The default relatedness is \<open>1 - scipy.spatial.distance.cosine\<close>
  on real vectors (exact reals, no rounding).
\<close>

section \<open>Scores\<close>

definition dot :: "real list \<Rightarrow> real list \<Rightarrow> real" where
  "dot u v = sum_list (map2 (*) u v)"

text \<open>
  scipy's \<open>cosine(u, v)\<close>: \<open>1 - uv / sqrt(uu * vv)\<close>, clipped to \<open>[0, 2]\<close>.  For a
  zero vector scipy returns NaN; HOL divides by zero to 0, so the model gives distance 1
  there (see the findings).
\<close>

definition cosine_distance :: "real list \<Rightarrow> real list \<Rightarrow> real" where
  "cosine_distance u v =
     (let uv = dot u v; uu = dot u u; vv = dot v v;
          dist = 1 - uv / sqrt (uu * vv)
      in min 2 (max 0 dist))"

definition cosine_relatedness :: "real list \<Rightarrow> real list \<Rightarrow> real" where
  "cosine_relatedness x y = 1 - cosine_distance x y"

section \<open>Ranking\<close>

text \<open>\<open>list.sort(key=f, reverse=True)\<close>.\<close>

definition sort_desc :: "('a \<Rightarrow> 'k::linorder) \<Rightarrow> 'a list \<Rightarrow> 'a list" where
  "sort_desc f xs = rev (sort_key f (rev xs))"

text \<open>The list comprehension of lines 26--29.\<close>

definition score_chunks ::
  "('v \<Rightarrow> 'v \<Rightarrow> 's) \<Rightarrow> 'v \<Rightarrow> 'v text_chunk list \<Rightarrow> (string \<times> 's) list" where
  "score_chunks relatedness_fn query_embedding chunks =
     map (\<lambda>item. (chunk_text item, relatedness_fn query_embedding (embedding item))) chunks"

text \<open>
  Lines 21--32.  The query embedding is \<open>response["data"][0]["embedding"]\<close> (an
  \<open>IndexError\<close> on an empty response); \<open>embedding_obj[0]\<close> on a cursor with no
  document raises \<open>IndexError\<close>; \<open>zip(*[])\<close> on a document without chunks unpacks
  nothing into two names and raises \<open>ValueError\<close>.
\<close>

definition strings_ranked_by_similarity ::
  "(string list \<Rightarrow> (nat \<times> 'v) list result) \<Rightarrow> string \<Rightarrow> 'v emb_doc list \<Rightarrow>
   ('v \<Rightarrow> 'v \<Rightarrow> 's::linorder) \<Rightarrow> int \<Rightarrow> (string list \<times> 's list) result" where
  "strings_ranked_by_similarity embed_fn query embedding_obj relatedness_fn top_n =
     (case embed_fn [query] of
        Inl e \<Rightarrow> Inl e
      | Inr data \<Rightarrow>
          (case data of
             [] \<Rightarrow> Inl (IndexError ''list index out of range'')
           | item0 # _ \<Rightarrow>
               (case embedding_obj of
                  [] \<Rightarrow> Inl (IndexError ''no such item for Cursor instance'')
                | doc # _ \<Rightarrow>
                    (let strings_and_similarities =
                           sort_desc snd (score_chunks relatedness_fn (snd item0) (text_chunks doc))
                     in if strings_and_similarities = []
                        then Inl (ValueError ''not enough values to unpack (expected 2, got 0)'')
                        else Inr (py_take top_n (map fst strings_and_similarities),
                                  py_take top_n (map snd strings_and_similarities))))))"

section \<open>The sort\<close>

lemma mset_sort_desc [simp]: "mset (sort_desc f xs) = mset xs"
  by (simp add: sort_desc_def)

lemma set_sort_desc [simp]: "set (sort_desc f xs) = set xs"
  by (simp add: sort_desc_def)

lemma length_sort_desc [simp]: "length (sort_desc f xs) = length xs"
  by (simp add: sort_desc_def)

lemma sort_desc_Nil_iff [simp]: "sort_desc f xs = [] \<longleftrightarrow> xs = []"
  by (metis length_0_conv length_sort_desc)

lemma sorted_wrt_rev_map:
  "sorted_wrt (\<lambda>a b. f b \<le> f a) (rev ys) \<longleftrightarrow> sorted (map f ys)"
  by (simp add: sorted_wrt_rev sorted_map)

lemma sort_desc_descending: "sorted_wrt (\<lambda>a b. f b \<le> f a) (sort_desc f xs)"
  unfolding sort_desc_def by (rule sorted_wrt_rev_map [THEN iffD2]) simp

lemma sort_desc_stable:
  "filter (\<lambda>y. f y = k) (sort_desc f xs) = filter (\<lambda>y. f y = k) xs"
  by (simp add: sort_desc_def rev_filter [symmetric] sort_key_stable)

lemma strings_ranked_by_similarity_Inr:
  assumes "strings_ranked_by_similarity embed_fn query objs rel top_n = Inr (ss, sc)"
  obtains item0 rest doc docs where "embed_fn [query] = Inr (item0 # rest)" "objs = doc # docs"
    "sort_desc snd (score_chunks rel (snd item0) (text_chunks doc)) \<noteq> []"
    "ss = py_take top_n (map fst (sort_desc snd (score_chunks rel (snd item0) (text_chunks doc))))"
    "sc = py_take top_n (map snd (sort_desc snd (score_chunks rel (snd item0) (text_chunks doc))))"
  using assms
  by (auto simp: strings_ranked_by_similarity_def Let_def split: sum.splits list.splits if_splits)

lemma dot_self_nonneg: "0 \<le> dot u u"
  by (induction u) (simp_all add: dot_def)

lemma dot_scale_right: "dot u (map ((*) c) v) = c * dot u v"
proof (induction u arbitrary: v)
  case Nil
  then show ?case by (simp add: dot_def)
next
  case (Cons x u)
  then show ?case
    by (cases v) (simp_all add: dot_def algebra_simps)
qed

lemma dot_scale_left: "dot (map ((*) c) u) v = c * dot u v"
proof (induction u arbitrary: v)
  case Nil
  then show ?case by (simp add: dot_def)
next
  case (Cons x u)
  then show ?case
    by (cases v) (simp_all add: dot_def algebra_simps)
qed

section \<open>Properties\<close>

text \<open>
  C9. The ranking sort meets its specification, and is the only list that does: a
  permutation of the scored chunks, sorted by decreasing score, in which chunks of equal
  score keep their insertion order (a stable sort, as the specification requires for
  reproducible context assembly).
\<close>

theorem sort_desc_unique:
  assumes "mset ys = mset xs" "sorted_wrt (\<lambda>a b. f b \<le> f a) ys"
    and "\<And>k. filter (\<lambda>y. f y = k) ys = filter (\<lambda>y. f y = k) xs"
  shows "sort_desc f xs = ys"
proof -
  have "sort_key f (rev xs) = rev ys"
  proof (rule properties_for_sort_key)
    show "mset (rev ys) = mset (rev xs)"
      using assms(1) by simp
    show "filter (\<lambda>x. f k = f x) (rev ys) = filter (\<lambda>x. f k = f x) (rev xs)" for k
      using assms(3) [of "f k"] by (simp add: rev_filter [symmetric] eq_commute)
    show "sorted (map f (rev ys))"
      using assms(2) sorted_wrt_rev_map [of f "rev ys"] by simp
  qed
  then show ?thesis by (simp add: sort_desc_def)
qed

theorem sort_desc_unique_witness:
  "mset [(''Y'', 1::int), (''Z'', 1), (''X'', 0)] = mset [(''X'', 0), (''Y'', 1), (''Z'', 1)] \<and>
   sort_desc snd [(''X'', 0::int), (''Y'', 1), (''Z'', 1)] = [(''Y'', 1), (''Z'', 1), (''X'', 0)]"
proof -
  have m: "mset [(''Y'', 1::int), (''Z'', 1), (''X'', 0)] = mset [(''X'', 0), (''Y'', 1), (''Z'', 1)]"
    by simp
  have s: "sorted_wrt (\<lambda>a b. snd b \<le> snd a) [(''Y'', 1::int), (''Z'', 1), (''X'', 0)]"
    by simp
  have f: "filter (\<lambda>y. snd y = k) [(''Y'', 1::int), (''Z'', 1), (''X'', 0)] =
           filter (\<lambda>y. snd y = k) [(''X'', 0), (''Y'', 1), (''Z'', 1)]" for k
    by auto
  show ?thesis using sort_desc_unique [OF m s f] m by simp
qed




text \<open>
  C12. The error paths of the retriever: a \<open>doc_id\<close> with no stored document makes
  \<open>embedding_obj[0]\<close> raise \<open>IndexError\<close> (a server error at the endpoint), and a stored
  document without chunks makes the unpacking \<open>zip(*[])\<close> raise \<open>ValueError\<close> (a client
  error at the endpoint).
\<close>

theorem strings_ranked_by_similarity_errors:
  assumes "embed_fn [query] = Inr (item0 # rest)"
  shows "strings_ranked_by_similarity embed_fn query [] rel top_n =
           Inl (IndexError ''no such item for Cursor instance'') \<and>
         (text_chunks doc = [] \<longrightarrow> strings_ranked_by_similarity embed_fn query (doc # docs) rel top_n =
           Inl (ValueError ''not enough values to unpack (expected 2, got 0)''))"
  using assms by (simp add: strings_ranked_by_similarity_def score_chunks_def)

theorem strings_ranked_by_similarity_errors_witness:
  "strings_ranked_by_similarity (\<lambda>_. Inr [(0, 1::int)]) ''q'' [] (\<lambda>a b. a * b) 2 =
     Inl (IndexError ''no such item for Cursor instance'') \<and>
   strings_ranked_by_similarity (\<lambda>_. Inr [(0, 1::int)]) ''q'' [\<lparr>doc_id = ''d'', text_chunks = []\<rparr>]
     (\<lambda>a b. a * b) 2 = Inl (ValueError ''not enough values to unpack (expected 2, got 0)'')"
  using strings_ranked_by_similarity_errors [of "\<lambda>_. Inr [(0, 1::int)]" "''q''" "(0, 1)" "[]"
      "(\<lambda>a b. a * b)" 2 "\<lparr>doc_id = ''d'', text_chunks = []\<rparr>" "[]"]
  by simp



end
