(* ===== verification/Prompt.thy ===== *)
theory Prompt
  imports Ranker
begin

text \<open>
  Prompt assembly and answering in \<open>src/ai-compendium/api/predict_response.py\<close>:
  \<open>query_message\<close> (lines 41--58) ranks the chunks of the document, then appends the
  ranked texts, each quoted between triple quotes, as long as the message with the next
  article and the question stays within \<open>token_budget\<close>, and ends with the question;
  \<open>get_query_response\<close> (lines 61--90) looks the document up, builds the message, asks
  the chat model and replaces the sentinel \<open>UNCERTAIN\<close> by a fixed fallback.  The
  services (embedding, tokenizer, chat) come from the record of \<open>Services\<close>.
\<close>

definition TRIPLE_QUOTE :: string where
  "TRIPLE_QUOTE = [CHR 0x22, CHR 0x22, CHR 0x22]"

text \<open>Python joins the two literals of lines 46--49 with no space between the sentences.\<close>

definition INTRODUCTION :: string where
  "INTRODUCTION =
     ''You will be given some context and a question that follows that context.'' @
     ''Your job is to answer the question based on the context provided.''"

definition wrap_article :: "string \<Rightarrow> string" where
  "wrap_article string = TRIPLE_QUOTE @ ''\<newline>'' @ string @ ''\<newline>'' @ TRIPLE_QUOTE"

text \<open>
  \<open>num_tokens\<close> of this module (lines 35--38): the length of the encoding for the given
  model.  It repeats the splitter's function of the same name; the lemma
  \<open>num_tokens_prompt_eq\<close> below identifies the two.
\<close>

definition num_tokens_prompt :: "tokenizers \<Rightarrow> string \<Rightarrow> string \<Rightarrow> nat" where
  "num_tokens_prompt tk text model = length (encode (tk model) text)"

text \<open>The \<open>for string in strings\<close> loop of lines 52--57, with \<open>break\<close> as the stop.\<close>

fun add_articles :: "tokenizers \<Rightarrow> string \<Rightarrow> int \<Rightarrow> string \<Rightarrow> string \<Rightarrow> string list \<Rightarrow> string" where
  "add_articles tk model token_budget question message [] = message"
| "add_articles tk model token_budget question message (string # strings) =
     (let next_article = wrap_article string
      in if int (num_tokens_prompt tk (message @ next_article @ question) model) > token_budget
         then message
         else add_articles tk model token_budget question (message @ next_article) strings)"

definition query_message ::
  "real list services \<Rightarrow> string \<Rightarrow> real list emb_doc list \<Rightarrow> string \<Rightarrow> int \<Rightarrow> string result" where
  "query_message sv query embedding_obj model token_budget =
     (case strings_ranked_by_similarity (embed sv) query embedding_obj cosine_relatedness TOP_K of
        Inl e \<Rightarrow> Inl e
      | Inr (strings, similarity) \<Rightarrow>
          (let question = ''\<newline>\<newline>Question: '' @ query
           in Inr (add_articles (tokenizer_of sv) model token_budget question INTRODUCTION strings @ question)))"

definition SYSTEM_CONTENT :: string where
  "SYSTEM_CONTENT = ''You answer the given question by referring to the context.''"

definition FALLBACK_ANSWER :: string where
  "FALLBACK_ANSWER =
     ''Sorry I do not have enough information to answer this. Please contact the reception.''"

definition DEFAULT_TOKEN_BUDGET :: int where
  "DEFAULT_TOKEN_BUDGET = 3200 - 500"

text \<open>
  Lines 61--90.  \<open>db.find\<close> returns a lazy cursor, so looking the document up cannot
  fail here; the \<open>print\<close> of the message is not modelled.  The chat answer is
  \<open>response["choices"][0]["message"]["content"]\<close>, what the \<open>chat\<close> service returns.
\<close>

definition get_query_response ::
  "real list services \<Rightarrow> string \<Rightarrow> string \<Rightarrow> real list collection \<Rightarrow> string \<Rightarrow> int \<Rightarrow> string result" where
  "get_query_response sv query doc_id' db model token_budget =
     (let embedding_obj = find_docs db doc_id'
      in case query_message sv query embedding_obj model token_budget of
           Inl e \<Rightarrow> Inl e
         | Inr message \<Rightarrow>
             (let messages = [(''system'', SYSTEM_CONTENT), (''user'', message)]
              in case chat sv model messages of
                   Inl e \<Rightarrow> Inl e
                 | Inr response_message \<Rightarrow>
                     Inr (if response_message = ''UNCERTAIN'' then FALLBACK_ANSWER
                          else response_message)))"

text \<open>Fixtures for the witnesses: services with one-character tokens, and a document.\<close>

definition demo_services :: "string \<Rightarrow> real list services" where
  "demo_services answer = \<lparr>tokenizer_of = char_tokenizers, embed = (\<lambda>_. Inr [(0, [1, 0])]),
     chat = (\<lambda>_ _. Inr answer), pdf_pages = (\<lambda>_. Inr []), df_to_csv = (\<lambda>_. []),
     base_dir = ''/app''\<rparr>"

definition demo_doc :: "real list emb_doc" where
  "demo_doc = \<lparr>doc_id = ''d'', text_chunks = [\<lparr>chunk_id = 0, chunk_text = ''X'', embedding = [1, 0]\<rparr>,
                                              \<lparr>chunk_id = 1, chunk_text = ''Y'', embedding = [0, 1]\<rparr>]\<rparr>"

section \<open>Lemmas\<close>

lemma num_tokens_prompt_eq [simp]: "num_tokens_prompt = num_tokens"
  by (simp add: fun_eq_iff num_tokens_prompt_def num_tokens_def)

lemma add_articles_shape:
  "\<exists>k \<le> length strings.
     add_articles tk model b q msg strings = msg @ concat (map wrap_article (take k strings)) \<and>
     (0 < k \<longrightarrow> int (num_tokens tk (add_articles tk model b q msg strings @ q) model) \<le> b) \<and>
     (k < length strings \<longrightarrow>
        b < int (num_tokens tk (add_articles tk model b q msg strings @ wrap_article (strings ! k) @ q) model))"
proof (induction strings arbitrary: msg)
  case Nil
  then show ?case by simp
next
  case (Cons s ss)
  show ?case
  proof (cases "b < int (num_tokens tk (msg @ wrap_article s @ q) model)")
    case True
    then show ?thesis
      by (intro exI [of _ 0]) simp
  next
    case fits: False
    obtain k where k: "k \<le> length ss"
      "add_articles tk model b q (msg @ wrap_article s) ss = (msg @ wrap_article s) @ concat (map wrap_article (take k ss))"
      "0 < k \<longrightarrow> int (num_tokens tk (add_articles tk model b q (msg @ wrap_article s) ss @ q) model) \<le> b"
      "k < length ss \<longrightarrow> b < int (num_tokens tk (add_articles tk model b q (msg @ wrap_article s) ss @ wrap_article (ss ! k) @ q) model)"
      using Cons.IH by blast
    have "0 < k \<longrightarrow> int (num_tokens tk (add_articles tk model b q (msg @ wrap_article s) ss @ q) model) \<le> b"
      using k(3) by blast
    moreover have "k = 0 \<Longrightarrow> int (num_tokens tk (add_articles tk model b q (msg @ wrap_article s) ss @ q) model) \<le> b"
      using fits k(2) by simp
    ultimately show ?thesis
      using fits k by (intro exI [of _ "Suc k"]) (auto simp: Let_def)
  qed
qed

lemma strings_ranked_by_similarity_hd:
  "strings_ranked_by_similarity e q (x # xs) r n = strings_ranked_by_similarity e q (x # ys) r n"
  by (simp add: strings_ranked_by_similarity_def split: sum.split list.split)


section \<open>Properties\<close>

text \<open>
  C13. Budgeted context assembly: the message is the introduction, the first \<open>k\<close>
  ranked texts quoted, and the question, where \<open>k\<close> is greedy: if any text is
  included the whole message fits the token budget, and if a text is left out, adding it
  would have exceeded the budget.  With no text included the message is not checked.
\<close>

theorem query_message_budget:
  assumes "query_message sv query objs model b = Inr m"
  shows "\<exists>ss sc k. strings_ranked_by_similarity (embed sv) query objs cosine_relatedness TOP_K = Inr (ss, sc) \<and>
           k \<le> length ss \<and>
           m = INTRODUCTION @ concat (map wrap_article (take k ss)) @ ''\<newline>\<newline>Question: '' @ query \<and>
           (0 < k \<longrightarrow> int (num_tokens (tokenizer_of sv) m model) \<le> b) \<and>
           (k < length ss \<longrightarrow> b < int (num_tokens (tokenizer_of sv)
              (INTRODUCTION @ concat (map wrap_article (take k ss)) @ wrap_article (ss ! k) @
               ''\<newline>\<newline>Question: '' @ query) model))"
proof -
  obtain ss sc where ranked:
    "strings_ranked_by_similarity (embed sv) query objs cosine_relatedness TOP_K = Inr (ss, sc)"
    and m: "m = add_articles (tokenizer_of sv) model b (''\<newline>\<newline>Question: '' @ query) INTRODUCTION ss @
               ''\<newline>\<newline>Question: '' @ query"
    using assms by (auto simp: query_message_def Let_def split: sum.splits)
  from add_articles_shape [of ss "tokenizer_of sv" model b "''\<newline>\<newline>Question: '' @ query" INTRODUCTION]
  obtain k where "k \<le> length ss" and shape:
    "add_articles (tokenizer_of sv) model b (''\<newline>\<newline>Question: '' @ query) INTRODUCTION ss =
       INTRODUCTION @ concat (map wrap_article (take k ss))"
    "0 < k \<longrightarrow> int (num_tokens (tokenizer_of sv) (add_articles (tokenizer_of sv) model b (''\<newline>\<newline>Question: '' @ query) INTRODUCTION ss @ ''\<newline>\<newline>Question: '' @ query) model) \<le> b"
    "k < length ss \<longrightarrow> b < int (num_tokens (tokenizer_of sv) (add_articles (tokenizer_of sv) model b (''\<newline>\<newline>Question: '' @ query) INTRODUCTION ss @ wrap_article (ss ! k) @ ''\<newline>\<newline>Question: '' @ query) model)"
    by blast
  with ranked m show ?thesis
    by (intro exI [of _ ss] exI [of _ sc] exI [of _ k]) simp
qed

theorem query_message_budget_witness:
  "query_message (demo_services ''A'') ''q'' [demo_doc] ANSWERING_MODEL 165 =
     Inr (INTRODUCTION @ wrap_article ''X'' @ ''\<newline>\<newline>Question: q'') \<and>
   int (num_tokens char_tokenizers (INTRODUCTION @ wrap_article ''X'' @ ''\<newline>\<newline>Question: q'') ANSWERING_MODEL) \<le> 165"
proof -
  have run: "query_message (demo_services ''A'') ''q'' [demo_doc] ANSWERING_MODEL 165 =
     Inr (INTRODUCTION @ wrap_article ''X'' @ ''\<newline>\<newline>Question: q'')"
    by (simp add: query_message_def demo_services_def demo_doc_def strings_ranked_by_similarity_def
        score_chunks_def sort_desc_def py_take_def TOP_K_def cosine_relatedness_def cosine_distance_def
        dot_def INTRODUCTION_def wrap_article_def TRIPLE_QUOTE_def)
  show ?thesis
    using query_message_budget [OF run] run
    by (simp add: INTRODUCTION_def wrap_article_def TRIPLE_QUOTE_def)
qed

text \<open>
  C14. The sentinel never reaches the caller: an answer of \<open>get_query_response\<close> is
  never \<open>UNCERTAIN\<close>; it is the chat model's reply to the system prompt and the
  assembled message, with \<open>UNCERTAIN\<close> replaced by the fixed fallback.
\<close>

theorem get_query_response_no_sentinel:
  assumes "get_query_response sv query k db model b = Inr answer"
  shows "answer \<noteq> ''UNCERTAIN'' \<and>
         (\<exists>m r. query_message sv query (find_docs db k) model b = Inr m \<and>
                chat sv model [(''system'', SYSTEM_CONTENT), (''user'', m)] = Inr r \<and>
                answer = (if r = ''UNCERTAIN'' then FALLBACK_ANSWER else r))"
proof -
  obtain m where qm: "query_message sv query (find_docs db k) model b = Inr m"
    using assms by (cases "query_message sv query (find_docs db k) model b")
      (simp_all add: get_query_response_def)
  obtain r where ch: "chat sv model [(''system'', SYSTEM_CONTENT), (''user'', m)] = Inr r"
    using assms qm by (cases "chat sv model [(''system'', SYSTEM_CONTENT), (''user'', m)]")
      (simp_all add: get_query_response_def)
  have ans: "answer = (if r = ''UNCERTAIN'' then FALLBACK_ANSWER else r)"
    using assms qm ch by (simp add: get_query_response_def)
  then have "answer \<noteq> ''UNCERTAIN''"
    by (simp add: FALLBACK_ANSWER_def)
  with qm ch ans show ?thesis
    by blast
qed

theorem get_query_response_no_sentinel_witness:
  "get_query_response (demo_services ''UNCERTAIN'') ''q'' ''d'' [demo_doc] ANSWERING_MODEL DEFAULT_TOKEN_BUDGET =
     Inr FALLBACK_ANSWER \<and> FALLBACK_ANSWER \<noteq> ''UNCERTAIN''"
proof -
  have run: "get_query_response (demo_services ''UNCERTAIN'') ''q'' ''d'' [demo_doc] ANSWERING_MODEL DEFAULT_TOKEN_BUDGET =
     Inr FALLBACK_ANSWER"
    by (simp add: get_query_response_def query_message_def demo_services_def demo_doc_def find_docs_def
        strings_ranked_by_similarity_def score_chunks_def sort_desc_def py_take_def TOP_K_def
        cosine_relatedness_def cosine_distance_def dot_def Let_def DEFAULT_TOKEN_BUDGET_def
        INTRODUCTION_def wrap_article_def TRIPLE_QUOTE_def)
  show ?thesis
    using get_query_response_no_sentinel [OF run] run by simp
qed

text \<open>
  C15. Re-ingestion does not change answers: once a document with a given id is stored,
  storing another one with the same id leaves every answer for that id unchanged,
  because \<open>find\<close> yields documents in insertion order and only the first is read.
\<close>

theorem get_query_response_reingest:
  assumes "find_docs db k \<noteq> []"
  shows "get_query_response sv query k (insert_one db d) model b = get_query_response sv query k db model b"
proof -
  obtain x xs where x: "find_docs db k = x # xs"
    using assms by (cases "find_docs db k") auto
  then obtain ys where "find_docs (insert_one db d) k = x # ys"
    by (simp add: insert_one_def find_docs_append)
  with x have "query_message sv query (find_docs (insert_one db d) k) model b =
               query_message sv query (find_docs db k) model b"
    by (simp add: query_message_def strings_ranked_by_similarity_hd [of _ _ x ys _ _ xs])
  then show ?thesis
    by (simp add: get_query_response_def)
qed

theorem get_query_response_reingest_witness:
  "find_docs [demo_doc] ''d'' \<noteq> [] \<and>
   get_query_response (demo_services ''A'') ''q'' ''d''
     (insert_one [demo_doc] \<lparr>doc_id = ''d'', text_chunks = []\<rparr>) ANSWERING_MODEL 2700 =
   get_query_response (demo_services ''A'') ''q'' ''d'' [demo_doc] ANSWERING_MODEL 2700"
proof -
  have h: "find_docs [demo_doc] ''d'' \<noteq> []"
    by (simp add: find_docs_def demo_doc_def)
  show ?thesis
    using get_query_response_reingest [OF h] h by simp
qed


end
