(* ===== verification/Halving.thy ===== *)
theory Halving
  imports Tokenizer
begin

text \<open>
  One step of the splitter of \<open>src/create_embeddings.py\<close>: \<open>halved_by_delimiter\<close>
  (lines 87--108) with its scan for the first local minimum of the distance to the
  halfway token count (\<open>halving_loop\<close>), and the delimiter loop of
  \<open>split_strings_into_chunks\<close> (\<open>first_split\<close>, lines 147--151).  Results are
  \<open>py_error + _\<close> because \<open>str.split\<close> raises on an empty separator.  The lemmas
  show that a two-sided halving cuts the text at one occurrence of the delimiter, so both
  halves are shorter than the text: the termination argument of the splitter.
\<close>

section \<open>Halving on one delimiter\<close>

text \<open>
  The \<open>for i, chunk in enumerate(chunks)\<close> loop of lines 98--105.  It returns the
  index \<open>i\<close> at which it breaks, or the last index when it runs to the end (Python
  leaves \<open>i\<close> bound to the last value).  \<open>best_diff\<close> starts at \<open>halfway\<close>.
\<close>

function halving_loop :: "tokenizers \<Rightarrow> string \<Rightarrow> string list \<Rightarrow> int \<Rightarrow> int \<Rightarrow> nat \<Rightarrow> nat" where
  "halving_loop tk delimiter chunks halfway best_diff i =
     (if i < length chunks then
        (let left = str_join delimiter (take (i + 1) chunks);
             left_tokens = num_tokens tk left ANSWERING_MODEL;
             diff = \<bar>halfway - int left_tokens\<bar>
         in if diff \<ge> best_diff then i
            else halving_loop tk delimiter chunks halfway diff (i + 1))
      else i - 1)"
  by pat_completeness auto
termination
  by (relation "measure (\<lambda>(tk, d, cs, h, b, i). length cs - i)") auto

declare halving_loop.simps [simp del]

definition halved_by_delimiter :: "tokenizers \<Rightarrow> string \<Rightarrow> string \<Rightarrow> (string \<times> string) result" where
  "halved_by_delimiter tk string delimiter =
     (case str_split string delimiter of
        Inl e \<Rightarrow> Inl e
      | Inr chunks \<Rightarrow>
          if length chunks = 1 then Inr (string, [])
          else if length chunks = 2 then Inr (chunks ! 0, chunks ! 1)
          else
            (let total_tokens = num_tokens tk string ANSWERING_MODEL;
                 halfway = int total_tokens div 2;
                 i = halving_loop tk delimiter chunks halfway halfway 0
             in Inr (str_join delimiter (take i chunks), str_join delimiter (drop i chunks))))"

section \<open>The recursive splitter\<close>

definition SPLIT_DELIMITERS :: "string list" where
  "SPLIT_DELIMITERS = [''\<newline>\<newline>'', ''\<newline>'', ''. '']"

text \<open>
  The \<open>for delimiter in [...]\<close> loop of lines 147--151: the first delimiter whose halves
  are both non-empty, \<open>None\<close> when the loop runs out (line 165 then truncates).
\<close>

fun first_split :: "tokenizers \<Rightarrow> string list \<Rightarrow> string \<Rightarrow> (string \<times> string) option result" where
  "first_split tk [] text_string = Inr None"
| "first_split tk (delimiter # ds) text_string =
     (case halved_by_delimiter tk text_string delimiter of
        Inl e \<Rightarrow> Inl e
      | Inr (left, right) \<Rightarrow>
          if left = [] \<or> right = [] then first_split tk ds text_string
          else Inr (Some (left, right)))"

text \<open>
  The specification of the scan: with \<open>D j\<close> the distance of the first \<open>j + 1\<close>
  pieces from the halfway count, the cut is at the first index whose distance does not
  improve on the previous one (on \<open>halfway\<close> itself for index 0), or at the last index.
  This is the "first local minimum" of the specification, written with \<open>find\<close>.
\<close>

definition balance_distance :: "tokenizers \<Rightarrow> string \<Rightarrow> string list \<Rightarrow> int \<Rightarrow> nat \<Rightarrow> int" where
  "balance_distance tk d cs h j =
     \<bar>h - int (num_tokens tk (str_join d (take (j + 1) cs)) ANSWERING_MODEL)\<bar>"

definition previous_best :: "tokenizers \<Rightarrow> string \<Rightarrow> string list \<Rightarrow> int \<Rightarrow> nat \<Rightarrow> int" where
  "previous_best tk d cs h j = (if j = 0 then h else balance_distance tk d cs h (j - 1))"

definition first_local_min :: "tokenizers \<Rightarrow> string \<Rightarrow> string list \<Rightarrow> int \<Rightarrow> nat" where
  "first_local_min tk d cs h =
     (case find (\<lambda>j. previous_best tk d cs h j \<le> balance_distance tk d cs h j) [0..<length cs] of
        Some j \<Rightarrow> j
      | None \<Rightarrow> length cs - 1)"

lemma halving_loop_bounds:
  "i < length cs \<Longrightarrow> i \<le> halving_loop tk d cs h b i \<and> halving_loop tk d cs h b i < length cs"
proof (induction tk d cs h b i rule: halving_loop.induct)
  case (1 tk d cs h b i)
  define diff where "diff = \<bar>h - int (num_tokens tk (str_join d (take (i + 1) cs)) ANSWERING_MODEL)\<bar>"
  show ?case
  proof (cases "b \<le> diff")
    case True
    with "1.prems" show ?thesis
      by (simp add: halving_loop.simps [of tk d cs h b i] diff_def Let_def)
  next
    case False
    with "1.prems" have step: "halving_loop tk d cs h b i = halving_loop tk d cs h diff (i + 1)"
      by (simp add: halving_loop.simps [of tk d cs h b i] diff_def Let_def)
    show ?thesis
    proof (cases "i + 1 < length cs")
      case True
      with "1.IH" [OF "1.prems" refl refl] False have
        "i + 1 \<le> halving_loop tk d cs h diff (i + 1) \<and> halving_loop tk d cs h diff (i + 1) < length cs"
        by (simp add: diff_def)
      with step show ?thesis by simp
    next
      case False
      with "1.prems" have "halving_loop tk d cs h diff (i + 1) = i"
        by (simp add: halving_loop.simps [of tk d cs h diff "Suc i"])
      with step "1.prems" show ?thesis by simp
    qed
  qed
qed

text \<open>
  The two shapes of a result: the text unchanged with an empty right half (no occurrence
  of the delimiter), or a cut of the pieces of \<open>str.split\<close> at an index \<open>i\<close>, which
  covers both the two-piece branch (\<open>i = 1\<close>) and the scan.
\<close>

lemma halved_by_delimiter_shape:
  assumes "halved_by_delimiter tk s d = Inr (l, r)"
  obtains (whole) "l = s" "r = []"
  | (cut) cs i where "str_split s d = Inr cs" "i < length cs"
      "l = str_join d (take i cs)" "r = str_join d (drop i cs)"
proof -
  obtain cs where cs: "str_split s d = Inr cs"
    using assms by (cases "str_split s d") (auto simp: halved_by_delimiter_def)
  have "cs \<noteq> []"
    using cs by (auto simp: str_split_def split: if_splits)
  then have "0 < length cs"
    by simp
  then consider (one) "length cs = 1" | (two) "length cs = 2" | (more) "2 < length cs"
    by linarith
  then show ?thesis
  proof cases
    case one
    with assms cs have "l = s" "r = []"
      by (simp_all add: halved_by_delimiter_def)
    then show ?thesis by (rule that(1))
  next
    case two
    then obtain a b where ab: "cs = [a, b]"
      by (metis One_nat_def Suc_1 length_0_conv length_Suc_conv)
    with assms cs have "l = a" "r = b"
      by (simp_all add: halved_by_delimiter_def)
    with cs ab show ?thesis
      by (intro that(2) [of cs 1]) simp_all
  next
    case more
    let ?i = "halving_loop tk d cs (int (num_tokens tk s ANSWERING_MODEL) div 2)
                (int (num_tokens tk s ANSWERING_MODEL) div 2) 0"
    have "?i < length cs"
      by (rule conjunct2 [OF halving_loop_bounds]) (use \<open>cs \<noteq> []\<close> in simp)
    moreover from assms cs more have "l = str_join d (take ?i cs)" "r = str_join d (drop ?i cs)"
      by (simp_all add: halved_by_delimiter_def Let_def)
    ultimately show ?thesis
      using cs by (intro that(2) [of cs ?i]) simp_all
  qed
qed

lemma halved_by_delimiter_parts:
  assumes "halved_by_delimiter tk s d = Inr (l, r)" "l \<noteq> []" "r \<noteq> []"
  shows "l @ d @ r = s"
  using assms(1)
proof (cases rule: halved_by_delimiter_shape)
  case whole
  with assms(3) show ?thesis by simp
next
  case (cut cs i)
  with assms(2) have "0 < i"
    by (cases i) auto
  with cut show ?thesis
    using str_join_append_take_drop str_join_str_split by metis
qed

lemma first_split_parts:
  "first_split tk ds s = Inr (Some (l, r)) \<Longrightarrow>
     \<exists>d \<in> set ds. l @ d @ r = s \<and> l \<noteq> [] \<and> r \<noteq> []"
proof (induction ds)
  case Nil
  then show ?case by simp
next
  case (Cons d ds)
  then show ?case
    by (auto split: sum.splits if_splits dest: halved_by_delimiter_parts)
qed

lemma first_split_shorter:
  assumes "first_split tk ds s = Inr (Some (l, r))"
  shows "length l < length s" and "length r < length s"
  using first_split_parts [OF assms] by auto

lemma halved_by_delimiter_Inr:
  "d \<noteq> [] \<Longrightarrow> \<exists>l r. halved_by_delimiter tk s d = Inr (l, r)"
  by (simp add: halved_by_delimiter_def Let_def pystr)

lemma first_split_Inr:
  "\<forall>d \<in> set ds. d \<noteq> [] \<Longrightarrow> \<exists>x. first_split tk ds s = Inr x"
proof (induction ds)
  case Nil
  then show ?case by simp
next
  case (Cons d ds)
  then obtain l r where "halved_by_delimiter tk s d = Inr (l, r)"
    using halved_by_delimiter_Inr by (metis list.set_intros(1))
  with Cons show ?case by simp
qed

lemma first_split_Nil:
  "\<forall>d \<in> set ds. d \<noteq> [] \<Longrightarrow> first_split tk ds [] = Inr None"
proof (induction ds)
  case Nil
  then show ?case by simp
next
  case (Cons d ds)
  then have "halved_by_delimiter tk [] d = Inr ([], [])"
    by (simp add: halved_by_delimiter_def pystr)
  with Cons show ?case by simp
qed

lemma SPLIT_DELIMITERS_nonempty: "\<forall>d \<in> set SPLIT_DELIMITERS. d \<noteq> []"
  by (simp add: SPLIT_DELIMITERS_def)

lemma halving_loop_find:
  "i \<le> length cs \<Longrightarrow> b = previous_best tk d cs h i \<Longrightarrow>
     halving_loop tk d cs h b i =
       (case find (\<lambda>j. previous_best tk d cs h j \<le> balance_distance tk d cs h j) [i..<length cs] of
          Some j \<Rightarrow> j
        | None \<Rightarrow> length cs - 1)"
proof (induction tk d cs h b i rule: halving_loop.induct)
  case (1 tk d cs h b i)
  show ?case
  proof (cases "i < length cs")
    case True
    then have upt: "[i..<length cs] = i # [Suc i..<length cs]"
      by (simp add: upt_conv_Cons)
    show ?thesis
    proof (cases "b \<le> balance_distance tk d cs h i")
      case True
      with "1.prems" \<open>i < length cs\<close> upt show ?thesis
        by (subst halving_loop.simps) (simp add: balance_distance_def Let_def)
    next
      case False
      have "Suc i \<le> length cs" "balance_distance tk d cs h i = previous_best tk d cs h (Suc i)"
        using \<open>i < length cs\<close> by (simp_all add: previous_best_def)
      with "1.IH" [OF \<open>i < length cs\<close> refl refl refl] False "1.prems" \<open>i < length cs\<close> upt
      show ?thesis
        by (subst halving_loop.simps) (simp add: balance_distance_def Let_def)
    qed
  next
    case False
    with "1.prems" show ?thesis
      by (subst halving_loop.simps) simp
  qed
qed

lemma halving_loop_first_local_min:
  "halving_loop tk d cs h h 0 = first_local_min tk d cs h"
  by (simp add: halving_loop_find previous_best_def first_local_min_def)

text \<open>
  C6. Equivalence of the scan with its specification: on a text with at least three
  pieces, \<open>halved_by_delimiter\<close> cuts at the first local minimum of the distance to the
  halfway token count, \<open>first_local_min\<close>.
\<close>

lemma halved_by_delimiter_first_local_min:
  assumes "str_split s d = Inr cs" "2 < length cs"
  shows "halved_by_delimiter tk s d =
           (let i = first_local_min tk d cs (int (num_tokens tk s ANSWERING_MODEL) div 2)
            in Inr (str_join d (take i cs), str_join d (drop i cs)))"
  using assms by (simp add: halved_by_delimiter_def halving_loop_first_local_min Let_def)

text \<open>
  C7. Round trip of one halving: the two halves with the delimiter between them give the
  text back, except in the two degenerate results, the text with an empty right half
  (no occurrence of the delimiter) and an empty left half with the whole text on the
  right (the scan stopped at index 0).
\<close>

lemma halved_by_delimiter_roundtrip:
  assumes "halved_by_delimiter tk s d = Inr (l, r)"
  shows "l @ d @ r = s \<or> (l = s \<and> r = []) \<or> (l = [] \<and> r = s)"
  using assms
proof (cases rule: halved_by_delimiter_shape)
  case whole
  then show ?thesis by simp
next
  case (cut cs i)
  show ?thesis
  proof (cases "i = 0")
    case True
    with cut show ?thesis
      using str_join_str_split by simp
  next
    case False
    with cut show ?thesis
      using str_join_append_take_drop str_join_str_split by (metis neq0_conv)
  qed
qed

text \<open>
  C8. A text that begins with the delimiter is never split on it: the first piece of
  \<open>str.split\<close> is empty, has no tokens, so the scan breaks at index 0 and the left half
  is empty.  The splitter then tries the next delimiter, and a section that starts with
  every delimiter it contains is truncated instead of split.
\<close>

lemma halved_by_delimiter_leading:
  assumes "encode (tk ANSWERING_MODEL) [] = []" "d \<noteq> []"
    and "halved_by_delimiter tk (d @ s) d = Inr (l, r)"
  shows "l = []"
proof -
  let ?cs = "[] # split_aux d [] s"
  have cs: "str_split (d @ s) d = Inr ?cs"
    using assms(2) by (simp add: pystr)
  show ?thesis
  proof (cases "length ?cs \<le> 2")
    case True
    have "split_aux d [] s \<noteq> []"
      by simp
    with True have "length ?cs = 2"
      by (cases "split_aux d [] s") auto
    with assms(3) cs show ?thesis
      by (simp add: halved_by_delimiter_def)
  next
    case False
    let ?h = "int (num_tokens tk (d @ s) ANSWERING_MODEL) div 2"
    have "halving_loop tk d ?cs ?h ?h 0 = 0"
      using assms(1) by (subst halving_loop.simps) (simp add: num_tokens_def)
    with False assms(3) cs show ?thesis
      by (simp add: halved_by_delimiter_def Let_def)
  qed
qed

section \<open>Witnesses\<close>

theorem first_local_min_witness:
  "str_split ''a\<newline>bb\<newline>c'' ''\<newline>'' = Inr [''a'', ''bb'', ''c''] \<and> 2 < length [''a'', ''bb'', ''c''] \<and>
   halved_by_delimiter char_tokenizers ''a\<newline>bb\<newline>c'' ''\<newline>'' =
     (let i = first_local_min char_tokenizers ''\<newline>'' [''a'', ''bb'', ''c'']
                (int (num_tokens char_tokenizers ''a\<newline>bb\<newline>c'' ANSWERING_MODEL) div 2)
      in Inr (str_join ''\<newline>'' (take i [''a'', ''bb'', ''c'']), str_join ''\<newline>'' (drop i [''a'', ''bb'', ''c''])))"
proof -
  have sp: "str_split ''a\<newline>bb\<newline>c'' ''\<newline>'' = Inr [''a'', ''bb'', ''c'']"
    by code_simp
  show ?thesis
    using halved_by_delimiter_first_local_min [OF sp] sp by simp
qed

theorem halved_by_delimiter_roundtrip_witness:
  "halved_by_delimiter char_tokenizers ''a\<newline>bb\<newline>c'' ''\<newline>'' = Inr (''a\<newline>bb'', ''c'') \<and>
   ''a\<newline>bb'' @ ''\<newline>'' @ ''c'' = ''a\<newline>bb\<newline>c''"
proof -
  have run: "halved_by_delimiter char_tokenizers ''a\<newline>bb\<newline>c'' ''\<newline>'' = Inr (''a\<newline>bb'', ''c'')"
    by code_simp
  show ?thesis
    using halved_by_delimiter_roundtrip [OF run] run by simp
qed

theorem halved_by_delimiter_leading_witness:
  "encode (char_tokenizers ANSWERING_MODEL) [] = [] \<and> ''\<newline>'' \<noteq> [] \<and>
   halved_by_delimiter char_tokenizers (''\<newline>'' @ ''aaaa\<newline>bbbb\<newline>cc'') ''\<newline>'' =
     Inr ([], ''\<newline>aaaa\<newline>bbbb\<newline>cc'')"
proof -
  have enc: "encode (char_tokenizers ANSWERING_MODEL) [] = []"
    by (simp add: char_tokenizers_def char_tokenizer_def)
  have run: "halved_by_delimiter char_tokenizers (''\<newline>'' @ ''aaaa\<newline>bbbb\<newline>cc'') ''\<newline>'' =
     Inr ([], ''\<newline>aaaa\<newline>bbbb\<newline>cc'')"
    by code_simp
  show ?thesis
    using halved_by_delimiter_leading [OF enc _ run] enc run by simp
qed

text \<open>
  C28. The delimiter loop follows the priority order: it returns a split exactly when some
  delimiter of the list halves the text into two non-empty sides, and then the split of
  the first such delimiter; every delimiter before it leaves one side empty.
\<close>

theorem first_split_priority:
  "\<forall>d \<in> set ds. d \<noteq> [] \<Longrightarrow>
   first_split tk ds s = Inr (Some (l, r)) \<longleftrightarrow>
   (\<exists>i < length ds. halved_by_delimiter tk s (ds ! i) = Inr (l, r) \<and> l \<noteq> [] \<and> r \<noteq> [] \<and>
      (\<forall>j < i. \<exists>l' r'. halved_by_delimiter tk s (ds ! j) = Inr (l', r') \<and> (l' = [] \<or> r' = [])))"
proof (induction ds)
  case Nil
  then show ?case by simp
next
  case (Cons d ds)
  obtain l0 r0 where h: "halved_by_delimiter tk s d = Inr (l0, r0)"
    using halved_by_delimiter_Inr Cons.prems by (metis list.set_intros(1))
  show ?case
  proof (cases "l0 = [] \<or> r0 = []")
    case True
    with h Cons show ?thesis
      by (auto simp: Ex_less_Suc2 All_less_Suc2)
  next
    case False
    with h show ?thesis
      by (auto simp: Ex_less_Suc2 All_less_Suc2)
  qed
qed



theorem first_split_priority_witness:
  "halved_by_delimiter char_tokenizers ''a\<newline>b'' (SPLIT_DELIMITERS ! 0) = Inr (''a\<newline>b'', []) \<and>
   halved_by_delimiter char_tokenizers ''a\<newline>b'' (SPLIT_DELIMITERS ! 1) = Inr (''a'', ''b'') \<and>
   first_split char_tokenizers SPLIT_DELIMITERS ''a\<newline>b'' = Inr (Some (''a'', ''b''))"
proof -
  have h0: "halved_by_delimiter char_tokenizers ''a\<newline>b'' (SPLIT_DELIMITERS ! 0) = Inr (''a\<newline>b'', [])"
    by code_simp
  have h1: "halved_by_delimiter char_tokenizers ''a\<newline>b'' (SPLIT_DELIMITERS ! 1) = Inr (''a'', ''b'')"
    by code_simp
  have "\<exists>i < length SPLIT_DELIMITERS.
          halved_by_delimiter char_tokenizers ''a\<newline>b'' (SPLIT_DELIMITERS ! i) = Inr (''a'', ''b'') \<and>
          ''a'' \<noteq> [] \<and> ''b'' \<noteq> [] \<and>
          (\<forall>j < i. \<exists>l' r'. halved_by_delimiter char_tokenizers ''a\<newline>b'' (SPLIT_DELIMITERS ! j) = Inr (l', r') \<and>
                           (l' = [] \<or> r' = []))"
    using h0 h1 by (intro exI [of _ 1]) (simp add: SPLIT_DELIMITERS_def less_Suc_eq)
  then show ?thesis
    using first_split_priority [OF SPLIT_DELIMITERS_nonempty] h0 h1 by blast
qed

end
