(* ===== verification/Chunker.thy ===== *)
theory Chunker
  imports Halving
begin

text \<open>
  The recursive token-bounded splitter of \<open>src/create_embeddings.py\<close>:
  \<open>split_strings_into_chunks\<close> (lines 128--165) and the section-level driver
  \<open>split_into_chunks\<close> (lines 168--176).  The warnings that \<open>truncated_string\<close>
  prints are collected in the result, so that a lossy split is observable.
\<close>

text \<open>
  \<open>split_strings_into_chunks\<close> (lines 128--165).  \<open>max_recursion\<close> is a Python int:
  a negative value never meets the \<open>== 0\<close> test, so the recursion does not end because
  of the counter.  It ends because both halves are strictly shorter than the text
  (\<open>first_split_shorter\<close>), which is the measure of the termination proof.
\<close>

function split_strings_into_chunks ::
  "tokenizers \<Rightarrow> string \<Rightarrow> int \<Rightarrow> string \<Rightarrow> int \<Rightarrow> (string list \<times> warning list) result" where
  "split_strings_into_chunks tk text_string max_tokens model max_recursion =
     (let num_tokens_in_string = num_tokens tk text_string ANSWERING_MODEL in
      if int num_tokens_in_string \<le> max_tokens then Inr ([text_string], [])
      else if max_recursion = 0 then
        (let (t, w) = truncated_string tk text_string model max_tokens True in Inr ([t], w))
      else
        (case first_split tk SPLIT_DELIMITERS text_string of
           Inl e \<Rightarrow> Inl e
         | Inr None \<Rightarrow>
             (let (t, w) = truncated_string tk text_string model max_tokens True in Inr ([t], w))
         | Inr (Some (left, right)) \<Rightarrow>
             (case split_strings_into_chunks tk left max_tokens model (max_recursion - 1) of
                Inl e \<Rightarrow> Inl e
              | Inr (cl, wl) \<Rightarrow>
                  (case split_strings_into_chunks tk right max_tokens model (max_recursion - 1) of
                     Inl e \<Rightarrow> Inl e
                   | Inr (cr, wr) \<Rightarrow> Inr (cl @ cr, wl @ wr)))))"
  by pat_completeness auto
termination
proof (relation "measure (\<lambda>(tk, s, m, model, r). length s)")
qed (auto dest: first_split_shorter)

declare split_strings_into_chunks.simps [simp del]

text \<open>
  \<open>split_into_chunks\<close> (lines 168--176): split on the section delimiter and extend the
  chunk list with the splitter's result for each section, with the defaults of the call
  (\<open>MAX_TOKENS\<close>, the answering model, recursion depth 5).
\<close>

fun split_sections :: "tokenizers \<Rightarrow> string list \<Rightarrow> (string list \<times> warning list) result" where
  "split_sections tk [] = Inr ([], [])"
| "split_sections tk (section # rest) =
     (case split_strings_into_chunks tk section MAX_TOKENS ANSWERING_MODEL 5 of
        Inl e \<Rightarrow> Inl e
      | Inr (c, w) \<Rightarrow>
          (case split_sections tk rest of
             Inl e \<Rightarrow> Inl e
           | Inr (cs, ws) \<Rightarrow> Inr (c @ cs, w @ ws)))"

definition split_into_chunks :: "tokenizers \<Rightarrow> string \<Rightarrow> (string list \<times> warning list) result" where
  "split_into_chunks tk file_contents =
     (case str_split file_contents ''\<newline>\<newline>\<newline>'' of
        Inl e \<Rightarrow> Inl e
      | Inr subsections \<Rightarrow> split_sections tk subsections)"

text \<open>
  What a run of the splitter produces, when no truncation happens: the text cut at
  occurrences of the delimiters, each piece kept whole.  This is the specification's
  "concatenation reconstructs the original text modulo the delimiters".
\<close>

inductive delimited_pieces :: "string list \<Rightarrow> string \<Rightarrow> string list \<Rightarrow> bool" for delims where
  whole: "delimited_pieces delims s [s]"
| cut: "d \<in> set delims \<Longrightarrow> delimited_pieces delims l cl \<Longrightarrow> delimited_pieces delims r cr \<Longrightarrow>
          delimited_pieces delims (l @ d @ r) (cl @ cr)"

section \<open>Lemmas on the splitter\<close>

text \<open>The three ways a call returns, as an elimination rule every proof below uses.\<close>

lemma split_strings_into_chunksE:
  assumes "split_strings_into_chunks tk s m model r = Inr (cs, ws)"
  obtains (fits) "int (num_tokens tk s ANSWERING_MODEL) \<le> m" "cs = [s]" "ws = []"
  | (truncated) "m < int (num_tokens tk s ANSWERING_MODEL)"
      "r = 0 \<or> first_split tk SPLIT_DELIMITERS s = Inr None"
      "cs = [fst (truncated_string tk s model m True)]" "ws = snd (truncated_string tk s model m True)"
  | (split) l rs cl wl cr wr where "m < int (num_tokens tk s ANSWERING_MODEL)" "r \<noteq> 0"
      "first_split tk SPLIT_DELIMITERS s = Inr (Some (l, rs))"
      "split_strings_into_chunks tk l m model (r - 1) = Inr (cl, wl)"
      "split_strings_into_chunks tk rs m model (r - 1) = Inr (cr, wr)"
      "cs = cl @ cr" "ws = wl @ wr"
  using assms
  by (subst (asm) split_strings_into_chunks.simps)
    (auto simp: Let_def split: if_splits sum.splits option.splits prod.splits)


text \<open>
  The splitter never raises: every delimiter it tries is non-empty, so \<open>str.split\<close>
  never fails, and the recursion returns for every text and every Python int bound,
  negative ones included.
\<close>

lemma split_strings_into_chunks_Inr:
  "\<exists>cs ws. split_strings_into_chunks tk s m model r = Inr (cs, ws)"
proof (induction "length s" arbitrary: s r rule: less_induct)
  case less
  obtain x where fs: "first_split tk SPLIT_DELIMITERS s = Inr x"
    using first_split_Inr [OF SPLIT_DELIMITERS_nonempty] by blast
  show ?case
  proof (cases x)
    case None
    with fs show ?thesis
      by (subst split_strings_into_chunks.simps) (simp add: Let_def split: prod.splits)
  next
    case (Some lr)
    obtain l rs where lr: "lr = (l, rs)" by (cases lr)
    with fs Some have "length l < length s" "length rs < length s"
      using first_split_shorter by blast+
    then obtain cl wl cr wr where
      "split_strings_into_chunks tk l m model (r - 1) = Inr (cl, wl)"
      "split_strings_into_chunks tk rs m model (r - 1) = Inr (cr, wr)"
      using less by meson
    with fs Some lr show ?thesis
      by (subst split_strings_into_chunks.simps) (simp add: Let_def split: prod.splits)
  qed
qed

lemma split_strings_into_chunks_nonempty:
  "split_strings_into_chunks tk s m model r = Inr (cs, ws) \<Longrightarrow> cs \<noteq> []"
proof (induction "length s" arbitrary: s r cs ws rule: less_induct)
  case less
  from less.prems show ?case
  proof (cases rule: split_strings_into_chunksE)
    case (split l rs cl wl cr wr)
    then show ?thesis
      using less.hyps first_split_shorter by blast
  qed simp_all
qed

lemma split_sections_list_all2:
  "list_all2 (\<lambda>sec r. split_strings_into_chunks tk sec MAX_TOKENS ANSWERING_MODEL 5 = Inr r) secs rs \<Longrightarrow>
   split_sections tk secs = Inr (concat (map fst rs), concat (map snd rs))"
proof (induction secs arbitrary: rs)
  case Nil
  then show ?case by simp
next
  case (Cons sec secs)
  then obtain r rs' where "rs = r # rs'"
    "split_strings_into_chunks tk sec MAX_TOKENS ANSWERING_MODEL 5 = Inr r"
    "list_all2 (\<lambda>sec r. split_strings_into_chunks tk sec MAX_TOKENS ANSWERING_MODEL 5 = Inr r) secs rs'"
    by (auto simp: list_all2_Cons1)
  with Cons.IH show ?case
    by (cases r) simp
qed

lemma split_sections_results:
  "\<exists>rs. list_all2 (\<lambda>sec r. split_strings_into_chunks tk sec MAX_TOKENS ANSWERING_MODEL 5 = Inr r) secs rs"
proof (induction secs)
  case Nil
  then show ?case by simp
next
  case (Cons sec secs)
  then obtain rs where "list_all2 (\<lambda>sec r. split_strings_into_chunks tk sec MAX_TOKENS ANSWERING_MODEL 5 = Inr r) secs rs"
    by blast
  moreover obtain cs ws where "split_strings_into_chunks tk sec MAX_TOKENS ANSWERING_MODEL 5 = Inr (cs, ws)"
    using split_strings_into_chunks_Inr by blast
  ultimately show ?case
    by (intro exI [of _ "(cs, ws) # rs"]) simp
qed

lemma split_into_chunks_Inr:
  "\<exists>cs ws. split_into_chunks tk s = Inr (cs, ws) \<and> cs \<noteq> []"
proof -
  obtain sec secs where secs: "split_aux ''\<newline>\<newline>\<newline>'' [] s = sec # secs"
    using split_aux_nonempty by (meson list.exhaust)
  obtain rs where rs: "list_all2 (\<lambda>sec r. split_strings_into_chunks tk sec MAX_TOKENS ANSWERING_MODEL 5 = Inr r)
                         (sec # secs) rs"
    using split_sections_results by blast
  then obtain r rs' where "rs = r # rs'" "split_strings_into_chunks tk sec MAX_TOKENS ANSWERING_MODEL 5 = Inr r"
    by (auto simp: list_all2_Cons1)
  then have "fst r \<noteq> []" "concat (map fst rs) \<noteq> []"
    using split_strings_into_chunks_nonempty [of tk sec MAX_TOKENS ANSWERING_MODEL 5 "fst r" "snd r"] by simp_all
  with rs secs show ?thesis
    using split_sections_list_all2 [OF rs] by (simp add: split_into_chunks_def str_split_def)
qed

text \<open>
  C3. With a non-negative recursion bound \<open>r\<close> the splitter returns at most
  \<open>2 ^ r\<close> chunks: each level of recursion at most doubles them.
\<close>

lemma split_strings_into_chunks_count:
  "0 \<le> r \<Longrightarrow> split_strings_into_chunks tk s m model r = Inr (cs, ws) \<Longrightarrow> length cs \<le> 2 ^ nat r"
proof (induction "length s" arbitrary: s r cs ws rule: less_induct)
  case less
  from less.prems(2) show ?case
  proof (cases rule: split_strings_into_chunksE)
    case (split l rs cl wl cr wr)
    with less.prems(1) have r: "0 \<le> r - 1" "nat r = Suc (nat (r - 1))"
      by auto
    have "length cl \<le> 2 ^ nat (r - 1)" "length cr \<le> 2 ^ nat (r - 1)"
      using split less.hyps r(1) first_split_shorter by blast+
    with split r(2) show ?thesis by simp
  qed simp_all
qed

lemma chunks_within_budget:
  assumes "reencode_bounded (tk ANSWERING_MODEL)" "0 \<le> m"
  shows "split_strings_into_chunks tk s m ANSWERING_MODEL r = Inr (cs, ws) \<Longrightarrow>
           c \<in> set cs \<Longrightarrow> int (num_tokens tk c ANSWERING_MODEL) \<le> m"
proof (induction "length s" arbitrary: s r cs ws rule: less_induct)
  case less
  from less.prems(1) show ?case
  proof (cases rule: split_strings_into_chunksE)
    case fits
    with less.prems(2) show ?thesis by simp
  next
    case truncated
    with less.prems(2) assms show ?thesis by (simp add: truncated_string_bound)
  next
    case (split l rs cl wl cr wr)
    have "length l < length s" "length rs < length s"
      using split(3) by (rule first_split_shorter)+
    with split less.hyps less.prems(2) show ?thesis
      by (metis Un_iff set_append)
  qed
qed

lemma split_sections_within_budget:
  assumes "reencode_bounded (tk ANSWERING_MODEL)"
  shows "split_sections tk secs = Inr (cs, ws) \<Longrightarrow> c \<in> set cs \<Longrightarrow>
           int (num_tokens tk c ANSWERING_MODEL) \<le> MAX_TOKENS"
proof (induction secs arbitrary: cs ws)
  case Nil
  then show ?case by simp
next
  case (Cons sec secs)
  obtain c1 w1 where s1: "split_strings_into_chunks tk sec MAX_TOKENS ANSWERING_MODEL 5 = Inr (c1, w1)"
    using split_strings_into_chunks_Inr by blast
  obtain c2 w2 where s2: "split_sections tk secs = Inr (c2, w2)" and cs: "cs = c1 @ c2"
    using Cons.prems(1) s1 by (auto split: sum.splits prod.splits)
  show ?case
    using Cons.prems(2) cs chunks_within_budget [of tk MAX_TOKENS sec 5 c1 w1, OF assms _ s1] Cons.IH [OF s2]
    by (auto simp: MAX_TOKENS_def)
qed

lemma split_into_chunks_within_budget:
  "reencode_bounded (tk ANSWERING_MODEL) \<Longrightarrow> split_into_chunks tk s = Inr (cs, ws) \<Longrightarrow> c \<in> set cs \<Longrightarrow>
     int (num_tokens tk c ANSWERING_MODEL) \<le> MAX_TOKENS"
  using split_sections_within_budget by (fastforce simp: split_into_chunks_def str_split_def)

text \<open>
  C1. Every chunk the splitter returns fits the token budget, the truncated ones
  included, when the encoding of the answering model does not grow on re-encoding a
  decoded prefix and the budget is not negative.
\<close>

theorem split_strings_into_chunks_within_budget:
  assumes "reencode_bounded (tk ANSWERING_MODEL)" "0 \<le> m"
  shows "split_strings_into_chunks tk s m ANSWERING_MODEL r = Inr (cs, ws) \<Longrightarrow>
           c \<in> set cs \<Longrightarrow> int (num_tokens tk c ANSWERING_MODEL) \<le> m"
  using chunks_within_budget [of tk m, OF assms] by blast

lemma split_strings_into_chunks_pieces:
  "split_strings_into_chunks tk s m ANSWERING_MODEL r = Inr (cs, []) \<Longrightarrow>
     delimited_pieces SPLIT_DELIMITERS s cs"
proof (induction "length s" arbitrary: s r cs rule: less_induct)
  case less
  from less.prems show ?case
  proof (cases rule: split_strings_into_chunksE)
    case fits
    then show ?thesis by (simp add: delimited_pieces.whole)
  next
    case truncated
    then show ?thesis by (metis truncated_string_warns)
  next
    case (split l rs cl wl cr wr)
    then obtain d where d: "d \<in> set SPLIT_DELIMITERS" "s = l @ d @ rs"
      using first_split_parts by metis
    have "delimited_pieces SPLIT_DELIMITERS l cl" "delimited_pieces SPLIT_DELIMITERS rs cr"
      using split less.hyps first_split_shorter by auto
    with d split show ?thesis by (simp add: delimited_pieces.cut)
  qed
qed

lemma delimited_pieces_subseq:
  "delimited_pieces delims s cs \<Longrightarrow> subseq (concat cs) s"
proof (induction rule: delimited_pieces.induct)
  case (whole s)
  then show ?case by simp
next
  case (cut d l cl r cr)
  then have "subseq (concat cr) (d @ r)"
    by (simp add: list_emb_append2)
  with cut.IH(1) show ?case
    by (simp add: list_emb_append_mono)
qed

lemma delimited_pieces_sublist:
  "delimited_pieces delims s cs \<Longrightarrow> c \<in> set cs \<Longrightarrow> sublist c s"
proof (induction rule: delimited_pieces.induct)
  case (whole s)
  then show ?case by simp
next
  case (cut d l cl r cr)
  have "sublist l (l @ d @ r)" "sublist r (l @ d @ r)"
    by (rule sublist_append_rightI, metis append_assoc sublist_append_leftI)
  with cut show ?case
    by (auto intro: sublist_order.order.trans)
qed

text \<open>
  C4. Enough depth: a recursion bound at least the length of the text behaves as no
  bound at all (a negative one, which never reaches 0): every level shortens the text,
  so the counter can only run out on the empty text, where truncation by depth and
  truncation for want of a delimiter agree.
\<close>

lemma split_strings_into_chunks_depth:
  "(r1 < 0 \<or> int (length s) \<le> r1) \<Longrightarrow> (r2 < 0 \<or> int (length s) \<le> r2) \<Longrightarrow>
     split_strings_into_chunks tk s m model r1 = split_strings_into_chunks tk s m model r2"
proof (induction "length s" arbitrary: s r1 r2 rule: less_induct)
  case less
  let ?F = "\<lambda>t r. split_strings_into_chunks tk t m model r"
  let ?T = "let (t, w) = truncated_string tk s model m True in Inr ([t], w)"
  show ?case
  proof (cases "int (num_tokens tk s ANSWERING_MODEL) \<le> m")
    case True
    then show ?thesis
      by (simp add: split_strings_into_chunks.simps [of tk s m model r1]
          split_strings_into_chunks.simps [of tk s m model r2])
  next
    case over: False
    obtain x where fs: "first_split tk SPLIT_DELIMITERS s = Inr x"
      using first_split_Inr [OF SPLIT_DELIMITERS_nonempty] by blast
    have trunc: "?F s r = ?T" if "r = 0 \<or> x = None" for r
      using that over fs by (auto simp: split_strings_into_chunks.simps [of tk s m model r] Let_def)
    consider (zero) "r1 = 0 \<or> r2 = 0" | (nonzero) "r1 \<noteq> 0" "r2 \<noteq> 0"
      by blast
    then show ?thesis
    proof cases
      case zero
      with less.prems have "s = []" by auto
      with fs have "x = None"
        using first_split_Nil [OF SPLIT_DELIMITERS_nonempty] by simp
      then show ?thesis using trunc by simp
    next
      case nonzero
      show ?thesis
      proof (cases x)
        case None
        then show ?thesis using trunc by simp
      next
        case (Some lr)
        obtain l rs where lr: "lr = (l, rs)" by (cases lr)
        with fs Some have short: "length l < length s" "length rs < length s"
          using first_split_shorter by blast+
        have "r1 - 1 < 0 \<or> int (length l) \<le> r1 - 1" "r2 - 1 < 0 \<or> int (length l) \<le> r2 - 1"
             "r1 - 1 < 0 \<or> int (length rs) \<le> r1 - 1" "r2 - 1 < 0 \<or> int (length rs) \<le> r2 - 1"
          using less.prems short by linarith+
        then have "?F l (r1 - 1) = ?F l (r2 - 1)" "?F rs (r1 - 1) = ?F rs (r2 - 1)"
          using less.hyps short by blast+
        with over fs Some lr nonzero show ?thesis
          by (simp add: split_strings_into_chunks.simps [of tk s m model r1]
              split_strings_into_chunks.simps [of tk s m model r2] split: sum.split)
      qed
    qed
  qed
qed

text \<open>
  C2. When a call prints no truncation warning, its chunks are the text cut at
  occurrences of the delimiters: their concatenation is a subsequence of the text and
  each chunk is a contiguous piece of it.
\<close>

theorem split_strings_into_chunks_reconstructs:
  assumes "split_strings_into_chunks tk s m ANSWERING_MODEL r = Inr (cs, [])"
  shows "delimited_pieces SPLIT_DELIMITERS s cs \<and> subseq (concat cs) s \<and> (\<forall>c \<in> set cs. sublist c s)"
  using split_strings_into_chunks_pieces [OF assms] delimited_pieces_subseq delimited_pieces_sublist
  by blast

section \<open>Witnesses\<close>

theorem within_budget_witness:
  "split_strings_into_chunks char_tokenizers ''aaaaaaa'' 4 ANSWERING_MODEL 5 =
     Inr ([''aaaa''], [Truncated 7 4]) \<and>
   int (num_tokens char_tokenizers ''aaaa'' ANSWERING_MODEL) \<le> 4"
proof -
  have run: "split_strings_into_chunks char_tokenizers ''aaaaaaa'' 4 ANSWERING_MODEL 5 =
     Inr ([''aaaa''], [Truncated 7 4])"
    by code_simp
  show ?thesis
    using split_strings_into_chunks_within_budget [OF char_tokenizers_reencode_bounded _ run, of "''aaaa''"] run
    by simp
qed

theorem reconstructs_witness:
  "split_strings_into_chunks char_tokenizers ''aaaa\<newline>\<newline>bb\<newline>\<newline>cc'' 4 ANSWERING_MODEL 5 =
     Inr ([''aaaa'', ''bb'', ''cc''], []) \<and>
   delimited_pieces SPLIT_DELIMITERS ''aaaa\<newline>\<newline>bb\<newline>\<newline>cc'' [''aaaa'', ''bb'', ''cc''] \<and>
   subseq ''aaaabbcc'' ''aaaa\<newline>\<newline>bb\<newline>\<newline>cc''"
proof -
  have run: "split_strings_into_chunks char_tokenizers ''aaaa\<newline>\<newline>bb\<newline>\<newline>cc'' 4 ANSWERING_MODEL 5 =
     Inr ([''aaaa'', ''bb'', ''cc''], [])"
    by code_simp
  show ?thesis
    using split_strings_into_chunks_reconstructs [OF run] run by simp
qed

theorem count_witness:
  "(0::int) \<le> 2 \<and>
   split_strings_into_chunks char_tokenizers ''aaaa\<newline>\<newline>bb\<newline>\<newline>cc'' 4 ANSWERING_MODEL 2 =
     Inr ([''aaaa'', ''bb'', ''cc''], []) \<and>
   length [''aaaa'', ''bb'', ''cc''] \<le> 2 ^ nat 2"
proof -
  have run: "split_strings_into_chunks char_tokenizers ''aaaa\<newline>\<newline>bb\<newline>\<newline>cc'' 4 ANSWERING_MODEL 2 =
     Inr ([''aaaa'', ''bb'', ''cc''], [])"
    by code_simp
  show ?thesis
    using split_strings_into_chunks_count [OF _ run] run by simp
qed

theorem depth_witness:
  "split_strings_into_chunks char_tokenizers ''ab\<newline>cd'' 2 ANSWERING_MODEL (-1) =
   split_strings_into_chunks char_tokenizers ''ab\<newline>cd'' 2 ANSWERING_MODEL 5"
  using split_strings_into_chunks_depth [of "-1" "''ab\<newline>cd''" 5] by simp

text \<open>
  C5. Sections are split independently and never merged: \<open>split_into_chunks\<close> cuts the
  text at every \<open>"\n\n\n"\<close>, runs the splitter on each section with the defaults
  (\<open>MAX_TOKENS\<close>, the answering model, depth 5), each run returns, and the result is
  the concatenation of the runs' chunks and of their warnings, in order.
\<close>

theorem split_into_chunks_sections:
  "\<exists>rs. list_all2 (\<lambda>sec r. split_strings_into_chunks tk sec MAX_TOKENS ANSWERING_MODEL 5 = Inr r)
          (split_aux ''\<newline>\<newline>\<newline>'' [] s) rs \<and>
        split_into_chunks tk s = Inr (concat (map fst rs), concat (map snd rs))"
  using split_sections_results [of tk "split_aux ''\<newline>\<newline>\<newline>'' [] s"] split_sections_list_all2
  by (fastforce simp: split_into_chunks_def str_split_def)


text \<open>
  C29. A degraded split is observable: every warning the splitter returns records the
  token count before truncation, which exceeds the budget, and the budget as the count
  after; there are never more warnings than chunks.
\<close>

theorem split_strings_into_chunks_warnings:
  "split_strings_into_chunks tk s m model r = Inr (cs, ws) \<Longrightarrow>
     length ws \<le> length cs \<and> (\<forall>w \<in> set ws. \<exists>n. w = Truncated n m \<and> m < int n)"
proof (induction "length s" arbitrary: s r cs ws rule: less_induct)
  case less
  from less.prems show ?case
  proof (cases rule: split_strings_into_chunksE)
    case truncated
    have "length ws \<le> 1"
      using truncated(4) by (simp add: truncated_string_def Let_def)
    moreover have "\<forall>w \<in> set ws. \<exists>n. w = Truncated n m \<and> m < int n"
      using truncated(4) truncated_string_warning_shape by blast
    ultimately show ?thesis
      using truncated(3) by simp
  next
    case (split l rs cl wl cr wr)
    then have "length wl \<le> length cl \<and> (\<forall>w \<in> set wl. \<exists>n. w = Truncated n m \<and> m < int n)"
              "length wr \<le> length cr \<and> (\<forall>w \<in> set wr. \<exists>n. w = Truncated n m \<and> m < int n)"
      using less.hyps first_split_shorter by blast+
    with split show ?thesis by (simp add: ball_Un)
  qed simp
qed


theorem warnings_witness:
  "split_strings_into_chunks char_tokenizers ''aaaaaaa'' 4 ANSWERING_MODEL 5 = Inr ([''aaaa''], [Truncated 7 4]) \<and>
   length [Truncated 7 4] \<le> length [''aaaa''] \<and> (\<exists>n. Truncated 7 4 = Truncated n 4 \<and> 4 < int n)"
proof -
  have run: "split_strings_into_chunks char_tokenizers ''aaaaaaa'' 4 ANSWERING_MODEL 5 =
     Inr ([''aaaa''], [Truncated 7 4])"
    by code_simp
  show ?thesis
    using split_strings_into_chunks_warnings [OF run] run by simp
qed

end
