(* ===== verification/Ingestion.thy ===== *)
theory Ingestion
  imports Chunker Services
begin

text \<open>
  The ingestion pipeline of \<open>src/create_embeddings.py\<close>: \<open>generate_embeddings\<close>
  (lines 24--38) reads and deletes the uploaded PDF (\<open>convert_to_text\<close>, lines 41--64),
  splits its text into chunks (\<open>create_embeddings_from_text\<close>, lines 67--78), embeds
  the chunks in batches of \<open>BATCH_SIZE\<close> with an index check on every response and
  stores one document with the chunks numbered from 0 (\<open>create_embedding\<close>, lines
  179--211).  Every operation takes and returns the \<open>app_state\<close>; its result is
  \<open>py_error + _\<close>, and the state it returns on an error is the state reached when the
  exception was raised.
\<close>

section \<open>Reading the PDF\<close>

definition PDF_TEXT_DIR :: string where
  "PDF_TEXT_DIR = ''./artifacts/pdf_text/''"

definition convert_to_text ::
  "'v services \<Rightarrow> 'v app_state \<Rightarrow> string \<Rightarrow> string \<Rightarrow> bool \<Rightarrow> 'v app_state \<times> string result" where
  "convert_to_text sv st file_path doc_id' save_text_file =
     (case files st file_path of
        None \<Rightarrow> (st, Inl (FileNotFoundError file_path))
      | Some content \<Rightarrow>
          (case pdf_pages sv content of
             Inl e \<Rightarrow> (st, Inl e)
           | Inr pdf \<Rightarrow>
               (let pdf_text = str_join ''\<newline>\<newline>'' pdf;
                    st1 = st\<lparr>files := (files st)(file_path := None)\<rparr>
                in if save_text_file
                   then (st1\<lparr>files := (files st1)(PDF_TEXT_DIR @ doc_id' @ ''_pdf2text.txt'' \<mapsto> pdf_text)\<rparr>,
                         Inr pdf_text)
                   else (st1, Inr pdf_text))))"

section \<open>Embedding in batches\<close>

text \<open>The assertion of lines 186--189: the \<open>i\<close>-th item of a response has index \<open>i\<close>.\<close>

fun indices_in_order :: "nat \<Rightarrow> (nat \<times> 'v) list \<Rightarrow> bool" where
  "indices_in_order i [] = True"
| "indices_in_order i ((index, e) # rest) = (i = index \<and> indices_in_order (Suc i) rest)"

text \<open>
  The loop of lines 181--191 over \<open>range(0, len(chunks), BATCH_SIZE)\<close>; \<open>embeddings\<close>
  is the list being extended.
\<close>

function embed_batches :: "'v services \<Rightarrow> string list \<Rightarrow> nat \<Rightarrow> 'v list \<Rightarrow> 'v list result" where
  "embed_batches sv chunks batch_start embeddings =
     (if batch_start < length chunks then
        (let batch_end = batch_start + BATCH_SIZE;
             batch = take (batch_end - batch_start) (drop batch_start chunks)
         in case embed sv batch of
              Inl e \<Rightarrow> Inl e
            | Inr data \<Rightarrow>
                if indices_in_order 0 data
                then embed_batches sv chunks batch_end (embeddings @ map snd data)
                else Inl AssertionError)
      else Inr embeddings)"
  by pat_completeness auto
termination
  by (relation "measure (\<lambda>(sv, chunks, batch_start, embeddings). length chunks - batch_start)")
    (auto simp: BATCH_SIZE_def)

declare embed_batches.simps [simp del]

definition EMBEDDINGS_SAVE_PATH :: "'v services \<Rightarrow> string" where
  "EMBEDDINGS_SAVE_PATH sv = base_dir sv @ ''/temp_embeddings.csv''"

text \<open>Imported by the module from config.py (line 6) but never read.\<close>

definition PDF_TEXT_FILE_PATH :: "'v services \<Rightarrow> string" where
  "PDF_TEXT_FILE_PATH sv = base_dir sv @ ''/pdf_text_2.txt''"

text \<open>
  \<open>pd.DataFrame({"text": chunks, "embedding": embeddings})\<close> raises \<open>ValueError\<close>
  when the columns differ in length; its rows are the pairs.
\<close>

definition data_frame :: "string list \<Rightarrow> 'v list \<Rightarrow> (string \<times> 'v) list result" where
  "data_frame texts embeddings =
     (if length texts = length embeddings then Inr (zip texts embeddings)
      else Inl (ValueError ''All arrays must be of the same length''))"

text \<open>The document of lines 197--203: the row index is the chunk id.\<close>

definition make_document :: "string \<Rightarrow> (string \<times> 'v) list \<Rightarrow> 'v emb_doc" where
  "make_document doc_id' df =
     \<lparr>doc_id = doc_id',
      text_chunks = map (\<lambda>(i, (t, e)). \<lparr>chunk_id = i, chunk_text = t, embedding = e\<rparr>)
                        (zip [0..<length df] df)\<rparr>"

definition create_embedding ::
  "'v services \<Rightarrow> 'v app_state \<Rightarrow> string list \<Rightarrow> string \<Rightarrow> bool \<Rightarrow> bool \<Rightarrow> 'v app_state \<times> string result" where
  "create_embedding sv st chunks doc_id' save_df debug =
     (case embed_batches sv chunks 0 [] of
        Inl e \<Rightarrow> (st, Inl e)
      | Inr embeddings \<Rightarrow>
          (case data_frame chunks embeddings of
             Inl e \<Rightarrow> (st, Inl e)
           | Inr df \<Rightarrow>
               (let save_path = EMBEDDINGS_SAVE_PATH sv
                in if save_df
                   then (let st1 = st\<lparr>collection := insert_one (collection st) (make_document doc_id' df)\<rparr>
                         in if debug
                            then (st1\<lparr>files := (files st1)(save_path \<mapsto> df_to_csv sv df)\<rparr>, Inr save_path)
                            else (st1, Inr save_path))
                   else (st, Inr save_path))))"

section \<open>The pipeline\<close>

text \<open>
  \<open>create_embeddings_from_text\<close>: split, print the truncation warnings, embed and
  store (\<open>save_df=True\<close>, \<open>debug=DEBUG\<close>).
\<close>

definition create_embeddings_from_text ::
  "'v services \<Rightarrow> 'v app_state \<Rightarrow> string \<Rightarrow> string \<Rightarrow> 'v app_state \<times> string result" where
  "create_embeddings_from_text sv st text_data doc_id' =
     (case split_into_chunks (tokenizer_of sv) text_data of
        Inl e \<Rightarrow> (st, Inl e)
      | Inr (chunks, warnings) \<Rightarrow>
          create_embedding sv (st\<lparr>stdout := stdout st @ warnings\<rparr>) chunks doc_id' True DEBUG)"

definition generate_embeddings ::
  "'v services \<Rightarrow> 'v app_state \<Rightarrow> string \<Rightarrow> string \<Rightarrow> 'v app_state \<times> string result" where
  "generate_embeddings sv st source_file_path doc_id' =
     (case convert_to_text sv st source_file_path doc_id' False of
        (st1, Inl e) \<Rightarrow> (st1, Inl e)
      | (st1, Inr text_data) \<Rightarrow> create_embeddings_from_text sv st1 text_data doc_id')"


text \<open>
  A reference for the batch loop: the chunks cut into consecutive groups of \<open>n\<close>, and
  the groups embedded one after another.
\<close>

function batches :: "nat \<Rightarrow> 'a list \<Rightarrow> 'a list list" where
  "batches n xs = (if xs = [] then [] else if n = 0 then [xs] else take n xs # batches n (drop n xs))"
  by pat_completeness auto
termination
  by (relation "measure (\<lambda>(n, xs). length xs)") auto

declare batches.simps [simp del]

fun embed_all :: "'v services \<Rightarrow> string list list \<Rightarrow> 'v list \<Rightarrow> 'v list result" where
  "embed_all sv [] embeddings = Inr embeddings"
| "embed_all sv (batch # rest) embeddings =
     (case embed sv batch of
        Inl e \<Rightarrow> Inl e
      | Inr data \<Rightarrow>
          if indices_in_order 0 data then embed_all sv rest (embeddings @ map snd data)
          else Inl AssertionError)"

text \<open>
  What one ingestion does, as a value: whether the source file is deleted, the warnings
  printed, the documents stored and the result.  It depends only on the services, the
  path, the content found there and the id; \<open>apply_outcome\<close> performs it on a state.
\<close>

record 'v ingest_outcome =
  source_deleted :: bool
  printed :: "warning list"
  stored :: "'v emb_doc list"
  outcome :: "string result"

definition ingest_outcome :: "'v services \<Rightarrow> string \<Rightarrow> string option \<Rightarrow> string \<Rightarrow> 'v ingest_outcome" where
  "ingest_outcome sv path content doc_id' =
     (case content of
        None \<Rightarrow> \<lparr>source_deleted = False, printed = [], stored = [], outcome = Inl (FileNotFoundError path)\<rparr>
      | Some c \<Rightarrow>
          (case pdf_pages sv c of
             Inl e \<Rightarrow> \<lparr>source_deleted = False, printed = [], stored = [], outcome = Inl e\<rparr>
           | Inr pages \<Rightarrow>
               (case split_into_chunks (tokenizer_of sv) (str_join ''\<newline>\<newline>'' pages) of
                  Inl e \<Rightarrow> \<lparr>source_deleted = True, printed = [], stored = [], outcome = Inl e\<rparr>
                | Inr (chunks, ws) \<Rightarrow>
                    (case embed_batches sv chunks 0 [] of
                       Inl e \<Rightarrow> \<lparr>source_deleted = True, printed = ws, stored = [], outcome = Inl e\<rparr>
                     | Inr embeddings \<Rightarrow>
                         (case data_frame chunks embeddings of
                            Inl e \<Rightarrow> \<lparr>source_deleted = True, printed = ws, stored = [], outcome = Inl e\<rparr>
                          | Inr df \<Rightarrow> \<lparr>source_deleted = True, printed = ws, stored = [make_document doc_id' df],
                                        outcome = Inr (EMBEDDINGS_SAVE_PATH sv)\<rparr>)))))"

definition apply_outcome :: "'v app_state \<Rightarrow> string \<Rightarrow> 'v ingest_outcome \<Rightarrow> 'v app_state \<times> string result" where
  "apply_outcome st path oc =
     (st\<lparr>files := (if source_deleted oc then (files st)(path := None) else files st),
         collection := collection st @ stored oc, stdout := stdout st @ printed oc\<rparr>, outcome oc)"

text \<open>Fixture for the witnesses: services with a given embedding endpoint.\<close>

definition demo_ingest :: "(string list \<Rightarrow> (nat \<times> nat) list result) \<Rightarrow> nat services" where
  "demo_ingest e = \<lparr>tokenizer_of = char_tokenizers, embed = e, chat = (\<lambda>_ _. Inr ''A''),
     pdf_pages = (\<lambda>c. Inr [c]), df_to_csv = (\<lambda>_. []), base_dir = ''/app''\<rparr>"

section \<open>Lemmas\<close>

lemma indices_in_order_zip: "indices_in_order i (zip [i..<j] xs)"
proof (induction xs arbitrary: i)
  case Nil
  then show ?case by simp
next
  case (Cons x xs)
  then show ?case
    by (cases "i < j") (simp_all add: upt_conv_Cons)
qed

lemma embed_batches_faithful:
  "(\<And>b. embed sv b = Inr (zip [0..<length b] (map f b))) \<Longrightarrow>
     embed_batches sv chunks s acc = Inr (acc @ map f (drop s chunks))"
proof (induction sv chunks s acc rule: embed_batches.induct)
  case (1 sv chunks s acc)
  show ?case
  proof (cases "s < length chunks")
    case True
    let ?batch = "take BATCH_SIZE (drop s chunks)"
    let ?data = "zip [0..<length ?batch] (map f ?batch)"
    have eq: "embed sv (take (s + BATCH_SIZE - s) (drop s chunks)) = Inr ?data"
      using "1.prems" by simp
    have "embed_batches sv chunks (s + BATCH_SIZE) (acc @ map snd ?data) =
            Inr ((acc @ map snd ?data) @ map f (drop (s + BATCH_SIZE) chunks))"
      by (rule "1.IH" [OF True refl refl eq indices_in_order_zip "1.prems"])
    then have "embed_batches sv chunks (s + BATCH_SIZE) (acc @ map f ?batch) =
            Inr ((acc @ map f ?batch) @ map f (drop (s + BATCH_SIZE) chunks))"
      by simp
    moreover have "?batch @ drop (s + BATCH_SIZE) chunks = drop s chunks"
      by (metis add.commute append_take_drop_id drop_drop)
    ultimately show ?thesis
      using True "1.prems" indices_in_order_zip
      by (subst embed_batches.simps) (simp add: Let_def flip: map_append)
  next
    case False
    then show ?thesis
      by (subst embed_batches.simps) simp
  qed
qed

lemma embed_batches_empty_responses:
  "(\<And>b. embed sv b = Inr []) \<Longrightarrow> embed_batches sv chunks s acc = Inr acc"
proof (induction sv chunks s acc rule: embed_batches.induct)
  case (1 sv chunks s acc)
  then show ?case
    by (subst embed_batches.simps) (simp add: Let_def)
qed

lemma numbered_rows:
  "map chunk_id (map (\<lambda>(i, (t, e)). \<lparr>chunk_id = i, chunk_text = t, embedding = e\<rparr>)
                    (zip [i..<i + length df] df)) = [i..<i + length df] \<and>
   map chunk_text (map (\<lambda>(i, (t, e)). \<lparr>chunk_id = i, chunk_text = t, embedding = e\<rparr>)
                    (zip [i..<i + length df] df)) = map fst df \<and>
   map embedding (map (\<lambda>(i, (t, e)). \<lparr>chunk_id = i, chunk_text = t, embedding = e\<rparr>)
                    (zip [i..<i + length df] df)) = map snd df"
proof (induction df arbitrary: i)
  case Nil
  then show ?case by simp
next
  case (Cons x df)
  have "[i..<i + length (x # df)] = i # [Suc i..<Suc i + length df]"
    by (simp del: upt_Suc add: upt_conv_Cons)
  with Cons.IH [of "Suc i"] show ?case
    by (cases x) simp
qed

lemma make_document_fields:
  "doc_id (make_document k df) = k \<and> wf_doc (make_document k df) \<and>
   map chunk_text (text_chunks (make_document k df)) = map fst df \<and>
   map embedding (text_chunks (make_document k df)) = map snd df"
  using numbered_rows [of 0 df] by (simp add: make_document_def wf_doc_def)

lemma create_embedding_files:
  "\<not> debug \<Longrightarrow> files (fst (create_embedding sv st chunks k save_df debug)) = files st"
  by (simp add: create_embedding_def Let_def split: sum.split)

lemma create_embeddings_from_text_files:
  "files (fst (create_embeddings_from_text sv st t k)) = files st"
  by (simp add: create_embeddings_from_text_def create_embedding_files DEBUG_def split: sum.split prod.split)

lemma create_embedding_collection:
  "collection (fst (create_embedding sv st chunks k save_df debug)) = collection st \<or>
   (\<exists>d. collection (fst (create_embedding sv st chunks k save_df debug)) = collection st @ [d] \<and> wf_doc d)"
  using make_document_fields
  by (auto simp: create_embedding_def Let_def insert_one_def split: sum.split)

lemma convert_to_text_collection:
  "collection (fst (convert_to_text sv st path k save_text_file)) = collection st"
  by (simp add: convert_to_text_def Let_def split: option.split sum.split)

lemma generate_embeddings_collection:
  "collection (fst (generate_embeddings sv st path k)) = collection st \<or>
   (\<exists>d. collection (fst (generate_embeddings sv st path k)) = collection st @ [d] \<and> wf_doc d)"
proof -
  obtain st1 x where c: "convert_to_text sv st path k False = (st1, x)"
    by fastforce
  then have st1: "collection st1 = collection st"
    using convert_to_text_collection [of sv st path k False] by simp
  show ?thesis
  proof (cases x)
    case (Inl e)
    with c st1 show ?thesis by (simp add: generate_embeddings_def)
  next
    case (Inr t)
    show ?thesis
    proof (cases "split_into_chunks (tokenizer_of sv) t")
      case (Inl e)
      with c st1 Inr show ?thesis
        by (simp add: generate_embeddings_def create_embeddings_from_text_def)
    next
      case (Inr cw)
      obtain cs ws where "cw = (cs, ws)" by fastforce
      with Inr c st1 \<open>x = Inr t\<close> show ?thesis
        using create_embedding_collection [of sv "st1\<lparr>stdout := stdout st1 @ ws\<rparr>" cs k True DEBUG]
        by (simp add: generate_embeddings_def create_embeddings_from_text_def)
    qed
  qed
qed

lemma generate_embeddings_parsed:
  assumes "files st path = Some content" "pdf_pages sv content = Inr pages"
  shows "generate_embeddings sv st path k =
           create_embeddings_from_text sv (st\<lparr>files := (files st)(path := None)\<rparr>)
             (str_join ''\<newline>\<newline>'' pages) k"
  using assms by (simp add: generate_embeddings_def convert_to_text_def Let_def)

lemma generate_embeddings_missing:
  "files st path = None \<Longrightarrow> generate_embeddings sv st path k = (st, Inl (FileNotFoundError path))"
  by (simp add: generate_embeddings_def convert_to_text_def)

lemma generate_embeddings_outcome:
  "generate_embeddings sv st path k = apply_outcome st path (ingest_outcome sv path (files st path) k)"
  by (simp add: generate_embeddings_def convert_to_text_def create_embeddings_from_text_def
      create_embedding_def ingest_outcome_def apply_outcome_def DEBUG_def insert_one_def Let_def
      split: option.split sum.split prod.split)

lemma ingest_outcome_stored:
  "d \<in> set (stored (ingest_outcome sv path c k)) \<Longrightarrow> doc_id d = k \<and> wf_doc d"
  using make_document_fields [of k]
  by (auto simp: ingest_outcome_def split: option.splits sum.splits prod.splits)

lemma batches_concat: "concat (batches n xs) = xs"
proof (induction n xs rule: batches.induct)
  case (1 n xs)
  then show ?case
    by (subst batches.simps) simp
qed

lemma batches_sizes: "b \<in> set (batches n xs) \<Longrightarrow> 0 < n \<Longrightarrow> b \<noteq> [] \<and> length b \<le> n"
proof (induction n xs rule: batches.induct)
  case (1 n xs)
  show ?case
  proof (cases "xs = []")
    case True
    with "1.prems" show ?thesis by (simp add: batches.simps)
  next
    case False
    with "1.prems" have "b = take n xs \<or> b \<in> set (batches n (drop n xs))"
      by (subst (asm) batches.simps) auto
    then show ?thesis
    proof
      assume "b = take n xs"
      with False "1.prems"(2) show ?thesis by simp
    next
      assume "b \<in> set (batches n (drop n xs))"
      with False "1.prems"(2) show ?thesis by (intro "1.IH") auto
    qed
  qed
qed

lemma embed_batches_embed_all:
  "embed_batches sv chunks s acc = embed_all sv (batches BATCH_SIZE (drop s chunks)) acc"
proof (induction sv chunks s acc rule: embed_batches.induct)
  case (1 sv chunks s acc)
  show ?case
  proof (cases "s < length chunks")
    case True
    then have b: "batches BATCH_SIZE (drop s chunks) =
                  take BATCH_SIZE (drop s chunks) # batches BATCH_SIZE (drop (s + BATCH_SIZE) chunks)"
      by (subst batches.simps) (simp add: BATCH_SIZE_def add.commute)
    show ?thesis
      using True "1.IH" [OF True refl refl]
      by (subst embed_batches.simps) (simp add: b Let_def split: sum.split)
  next
    case False
    then show ?thesis
      by (subst embed_batches.simps, subst batches.simps) simp
  qed
qed

lemma ingest_outcome_stored_chunks:
  assumes "d \<in> set (stored (ingest_outcome sv path c k))" "x \<in> set (text_chunks d)"
  shows "\<exists>t cs ws. split_into_chunks (tokenizer_of sv) t = Inr (cs, ws) \<and> chunk_text x \<in> set cs"
proof -
  obtain t cs ws es where sp: "split_into_chunks (tokenizer_of sv) t = Inr (cs, ws)"
    and len: "length cs = length es" and d: "d = make_document k (zip cs es)"
    using assms(1)
    by (auto simp: ingest_outcome_def data_frame_def split: option.splits sum.splits prod.splits if_splits)
  have "chunk_text x \<in> set (map chunk_text (text_chunks d))"
    using assms(2) by simp
  also have "map chunk_text (text_chunks d) = cs"
    using make_document_fields [of k "zip cs es"] len d by simp
  finally show ?thesis
    using sp by blast
qed

lemma ingest_outcome_success:
  assumes "pdf_pages sv content = Inr pages" "\<And>b. embed sv b = Inr (zip [0..<length b] (map f b))"
  shows "\<exists>cs ws. cs \<noteq> [] \<and>
           ingest_outcome sv path (Some content) k =
             \<lparr>source_deleted = True, printed = ws, stored = [make_document k (zip cs (map f cs))],
              outcome = Inr (EMBEDDINGS_SAVE_PATH sv)\<rparr>"
proof -
  obtain cs ws where cs: "split_into_chunks (tokenizer_of sv) (str_join ''\<newline>\<newline>'' pages) = Inr (cs, ws)" "cs \<noteq> []"
    using split_into_chunks_Inr by blast
  have "embed_batches sv cs 0 [] = Inr (map f cs)"
    using embed_batches_faithful [of sv f cs 0 "[]", OF assms(2)] by simp
  with cs assms(1) show ?thesis
    by (auto simp: ingest_outcome_def data_frame_def)
qed

section \<open>Properties\<close>

text \<open>
  C16. Batching is transparent: with an embedding endpoint that answers every batch in
  order, \<open>create_embedding\<close> stores one new document whose chunk ids are
  \<open>0, \<dots>, n - 1\<close>, whose texts are the chunks in order and whose embeddings are the
  embeddings of the chunks one by one; nothing else in the state changes.
\<close>

theorem create_embedding_stores:
  assumes "\<And>b. embed sv b = Inr (zip [0..<length b] (map f b))"
  shows "\<exists>d. create_embedding sv st chunks k True False =
              (st\<lparr>collection := collection st @ [d]\<rparr>, Inr (EMBEDDINGS_SAVE_PATH sv)) \<and>
            doc_id d = k \<and> wf_doc d \<and> map chunk_text (text_chunks d) = chunks \<and>
            map embedding (text_chunks d) = map f chunks"
proof -
  have "embed_batches sv chunks 0 [] = Inr (map f chunks)"
    using embed_batches_faithful [of sv f chunks 0 "[]", OF assms] by simp
  then have "create_embedding sv st chunks k True False =
      (st\<lparr>collection := collection st @ [make_document k (zip chunks (map f chunks))]\<rparr>,
       Inr (EMBEDDINGS_SAVE_PATH sv))"
    by (simp add: create_embedding_def data_frame_def insert_one_def Let_def)
  moreover have "map fst (zip chunks (map f chunks)) = chunks" "map snd (zip chunks (map f chunks)) = map f chunks"
    by simp_all
  ultimately show ?thesis
    using make_document_fields [of k "zip chunks (map f chunks)"] by fastforce
qed

theorem create_embedding_stores_witness:
  "(\<forall>b. embed (demo_ingest (\<lambda>b. Inr (zip [0..<length b] (map length b)))) b =
        Inr (zip [0..<length b] (map length b))) \<and>
   (\<exists>d. create_embedding (demo_ingest (\<lambda>b. Inr (zip [0..<length b] (map length b))))
          \<lparr>files = Map.empty, collection = [], stdout = []\<rparr> [''ab'', ''c''] ''d'' True False =
        (\<lparr>files = Map.empty, collection = [d], stdout = []\<rparr>, Inr ''/app/temp_embeddings.csv'') \<and>
        doc_id d = ''d'' \<and> wf_doc d \<and> map chunk_text (text_chunks d) = [''ab'', ''c''] \<and>
        map embedding (text_chunks d) = map length [''ab'', ''c''])"
proof -
  have e: "\<And>b. embed (demo_ingest (\<lambda>b. Inr (zip [0..<length b] (map length b)))) b =
        Inr (zip [0..<length b] (map length b))"
    by (simp add: demo_ingest_def)
  show ?thesis
    using create_embedding_stores [OF e, of "\<lparr>files = Map.empty, collection = [], stdout = []\<rparr>" "[''ab'', ''c'']" "''d''"] e
    by (simp add: EMBEDDINGS_SAVE_PATH_def demo_ingest_def)
qed

text \<open>
  C17. A response whose items are out of order aborts the ingestion with
  \<open>AssertionError\<close> before anything is stored.
\<close>

theorem create_embedding_index_mismatch:
  assumes "chunks \<noteq> []" "embed sv (take BATCH_SIZE chunks) = Inr data" "\<not> indices_in_order 0 data"
  shows "create_embedding sv st chunks k save_df debug = (st, Inl AssertionError)"
proof -
  have "embed_batches sv chunks 0 [] = Inl AssertionError"
    using assms by (subst embed_batches.simps) simp
  then show ?thesis
    by (simp add: create_embedding_def)
qed

theorem create_embedding_index_mismatch_witness:
  "[''a''] \<noteq> [] \<and> embed (demo_ingest (\<lambda>_. Inr [(1, 0), (0, 0)])) (take BATCH_SIZE [''a'']) = Inr [(1, 0), (0, 0)] \<and>
   \<not> indices_in_order 0 [(1::nat, 0::nat), (0, 0)] \<and>
   create_embedding (demo_ingest (\<lambda>_. Inr [(1, 0), (0, 0)])) \<lparr>files = Map.empty, collection = [], stdout = []\<rparr>
     [''a''] ''d'' True False = (\<lparr>files = Map.empty, collection = [], stdout = []\<rparr>, Inl AssertionError)"
proof -
  have e: "embed (demo_ingest (\<lambda>_. Inr [(1, 0), (0, 0)])) (take BATCH_SIZE [''a'']) = Inr [(1, 0), (0, 0)]"
    by (simp add: demo_ingest_def)
  have n: "\<not> indices_in_order 0 [(1::nat, 0::nat), (0, 0)]"
    by simp
  show ?thesis
    using create_embedding_index_mismatch [OF _ e n] e n by simp
qed



text \<open>
  C19. Once the PDF has been parsed, ingestion has deleted it, whatever happens after:
  even when embedding fails, the file is gone, and running the same ingestion again fails
  with \<open>FileNotFoundError\<close>.
\<close>

theorem generate_embeddings_deletes_source:
  assumes "files st path = Some content" "pdf_pages sv content = Inr pages"
  shows "files (fst (generate_embeddings sv st path k)) path = None \<and>
         generate_embeddings sv (fst (generate_embeddings sv st path k)) path k' =
           (fst (generate_embeddings sv st path k), Inl (FileNotFoundError path))"
proof -
  have gone: "files (fst (generate_embeddings sv st path k)) path = None"
    using generate_embeddings_parsed [OF assms] by (simp add: create_embeddings_from_text_files)
  then show ?thesis
    using generate_embeddings_missing by simp
qed

theorem generate_embeddings_deletes_source_witness:
  "files \<lparr>files = [''pdfs/a.pdf'' \<mapsto> ''x''], collection = [], stdout = []\<rparr> ''pdfs/a.pdf'' = Some ''x'' \<and>
   pdf_pages (demo_ingest (\<lambda>_. Inl (ProviderError ''unavailable''))) ''x'' = Inr [''x''] \<and>
   generate_embeddings (demo_ingest (\<lambda>_. Inl (ProviderError ''unavailable'')))
     \<lparr>files = [''pdfs/a.pdf'' \<mapsto> ''x''], collection = [], stdout = []\<rparr> ''pdfs/a.pdf'' ''d'' =
   (\<lparr>files = Map.empty(''pdfs/a.pdf'' := None), collection = [], stdout = []\<rparr>, Inl (ProviderError ''unavailable'')) \<and>
   files (fst (generate_embeddings (demo_ingest (\<lambda>_. Inl (ProviderError ''unavailable'')))
     \<lparr>files = [''pdfs/a.pdf'' \<mapsto> ''x''], collection = [], stdout = []\<rparr> ''pdfs/a.pdf'' ''d'')) ''pdfs/a.pdf'' = None"
proof -
  have f: "files \<lparr>files = [''pdfs/a.pdf'' \<mapsto> ''x''], collection = [], stdout = []\<rparr> ''pdfs/a.pdf'' = Some ''x''"
    by simp
  have p: "pdf_pages (demo_ingest (\<lambda>_. Inl (ProviderError ''unavailable''))) ''x'' = Inr [''x'']"
    by (simp add: demo_ingest_def)
  have run: "generate_embeddings (demo_ingest (\<lambda>_. Inl (ProviderError ''unavailable'')))
     \<lparr>files = [''pdfs/a.pdf'' \<mapsto> ''x''], collection = [], stdout = []\<rparr> ''pdfs/a.pdf'' ''d'' =
   (\<lparr>files = Map.empty(''pdfs/a.pdf'' := None), collection = [], stdout = []\<rparr>, Inl (ProviderError ''unavailable''))"
    by (simp add: generate_embeddings_def convert_to_text_def create_embeddings_from_text_def
        create_embedding_def demo_ingest_def split_into_chunks_def str_split_def Let_def
        split_strings_into_chunks.simps embed_batches.simps MAX_TOKENS_def)
  show ?thesis
    using generate_embeddings_deletes_source [OF f p, of "''d''"] f p run by simp
qed

text \<open>
  C30. The batch loop is the reference loop over fixed-size groups: stepping
  \<open>batch_start\<close> through \<open>range(0, len(chunks), BATCH_SIZE)\<close> and slicing sends
  the chunks to the provider as consecutive non-empty batches of at most
  \<open>BATCH_SIZE\<close> items that together are exactly the chunks, in order.
\<close>

theorem embed_batches_reference:
  "embed_batches sv chunks 0 [] = embed_all sv (batches BATCH_SIZE chunks) [] \<and>
   concat (batches BATCH_SIZE chunks) = chunks \<and>
   (\<forall>b \<in> set (batches BATCH_SIZE chunks). b \<noteq> [] \<and> length b \<le> BATCH_SIZE)"
proof -
  have "\<forall>b \<in> set (batches BATCH_SIZE chunks). b \<noteq> [] \<and> length b \<le> BATCH_SIZE"
    using batches_sizes [of _ BATCH_SIZE chunks] by (simp add: BATCH_SIZE_def)
  then show ?thesis
    using embed_batches_embed_all [of sv chunks 0 "[]"] batches_concat [of BATCH_SIZE chunks] by simp
qed

theorem embed_batches_reference_witness:
  "batches BATCH_SIZE (replicate 51 ''a'') = [replicate 50 ''a'', [''a'']] \<and>
   embed_batches (demo_ingest (\<lambda>b. Inr [])) (replicate 51 ''a'') 0 [] =
     embed_all (demo_ingest (\<lambda>b. Inr [])) [replicate 50 ''a'', [''a'']] [] \<and>
   length (replicate 50 ''a'') \<le> BATCH_SIZE"
proof -
  have b: "batches BATCH_SIZE (replicate 51 ''a'') = [replicate 50 ''a'', [''a'']]"
    by code_simp
  show ?thesis
    using embed_batches_reference [of "demo_ingest (\<lambda>b. Inr [])" "replicate 51 ''a''"] b
    by (simp add: BATCH_SIZE_def)
qed

end
