(* ===== verification/Endpoints.thy ===== *)
theory Endpoints
  imports Prompt Ingestion
begin

text \<open>
  The HTTP layer: the request and response models of \<open>src/io_models.py\<close>, the four
  handlers of \<open>src/main.py\<close>, and \<open>custom_except\<close> of
  \<open>src/ai-compendium/business_excepts.py\<close>.  A handler takes the application state
  (files, document collection, printed warnings) and a request and returns the new state
  and the response; \<open>handle\<close> dispatches a request, and \<open>reachable\<close> is the set of
  states a sequence of requests can produce from an empty system.  The embedding type is
  \<open>real list\<close>, since the query path uses cosine relatedness.  Because the records of
  \<open>io_models.py\<close> also have a field \<open>doc_id\<close>, the stored document's field is written
  \<open>emb_doc.doc_id\<close> from here on.
\<close>

section \<open>Request and response models (src/io_models.py)\<close>

record inference_data =
  query_text :: string
  doc_id :: string

record inference_output =
  status_code :: int
  message :: string
  data :: string

record create_embedding_data =
  source_file_path :: string
  doc_id :: string

datatype response =
    HealthResponse int string
  | UploadResponse string string
  | Output inference_output

text \<open>The two \<open>except\<close> clauses every handler of main.py ends with.\<close>

definition error_output :: "py_error \<Rightarrow> response" where
  "error_output e =
     Output \<lparr>status_code = (if is_value_error e then 400 else 500), message = exc_message e, data = []\<rparr>"

section \<open>Handlers (src/main.py)\<close>

definition health_check :: response where
  "health_check = HealthResponse 200 ''Server Up''"

text \<open>
  \<open>upload\<close> (lines 26--43) writes the uploaded bytes to \<open>pdfs/<filename>\<close>; the path is
  the file name appended as given.
\<close>

definition upload :: "'v app_state \<Rightarrow> string \<Rightarrow> string \<Rightarrow> 'v app_state \<times> response" where
  "upload st file_name content =
     (let destination = ''pdfs/'' @ file_name
      in (st\<lparr>files := (files st)(destination \<mapsto> content)\<rparr>, UploadResponse ''SUCCESS'' destination))"

text \<open>
  Name resolution for the string-valued names at line 56 of \<open>predict_response\<close>: its
  locals, then the module globals of main.py, none of which is a string.  A name bound
  in neither raises \<open>NameError\<close>.
\<close>

definition predict_response_locals :: "inference_data \<Rightarrow> string \<rightharpoonup> string" where
  "predict_response_locals request_data = [''query_text'' \<mapsto> query_text request_data]"

definition main_globals :: "string \<rightharpoonup> string" where
  "main_globals = Map.empty"

definition lookup_name :: "(string \<rightharpoonup> string) \<Rightarrow> string \<Rightarrow> string result" where
  "lookup_name scope name =
     (case scope name of
        None \<Rightarrow> Inl (NameError (''name '' @ [CHR 0x27] @ name @ [CHR 0x27] @ '' is not defined''))
      | Some v \<Rightarrow> Inr v)"

text \<open>
  \<open>predict_response\<close> (lines 48--66): the query goes to \<open>get_query_response\<close> with the
  defaults of that function (the collection, the answering model, budget 2700).
\<close>

definition predict_response :: "real list services \<Rightarrow> real list app_state \<Rightarrow> inference_data \<Rightarrow> response" where
  "predict_response sv st request_data =
     (let query_text = query_text request_data
      in case lookup_name (predict_response_locals request_data ++ main_globals) ''doc_id'' of
           Inl e \<Rightarrow> error_output e
         | Inr doc_id' \<Rightarrow>
             (case get_query_response sv query_text doc_id' (collection st) ANSWERING_MODEL
                     DEFAULT_TOKEN_BUDGET of
                Inl e \<Rightarrow> error_output e
              | Inr output_text \<Rightarrow>
                  Output \<lparr>status_code = 200, message = ''Success'', data = output_text\<rparr>))"

text \<open>\<open>get_embedding_table\<close> (lines 69--92), the \<open>/create-embeddings\<close> endpoint.\<close>

definition get_embedding_table ::
  "'v services \<Rightarrow> 'v app_state \<Rightarrow> create_embedding_data \<Rightarrow> 'v app_state \<times> response" where
  "get_embedding_table sv st request_data =
     (let source_file_path = source_file_path request_data;
          doc_id' = create_embedding_data.doc_id request_data
      in case generate_embeddings sv st source_file_path doc_id' of
           (st', Inl e) \<Rightarrow> (st', error_output e)
         | (st', Inr _) \<Rightarrow>
             (st', Output \<lparr>status_code = 200, message = ''Success'',
                           data = ''Embedding table created successfully''\<rparr>))"

section \<open>The service as a state machine\<close>

datatype request =
    HealthCheck
  | Upload string string
  | GetQueryResponse inference_data
  | CreateEmbeddings create_embedding_data

fun handle :: "real list services \<Rightarrow> real list app_state \<Rightarrow> request \<Rightarrow> real list app_state \<times> response" where
  "handle sv st HealthCheck = (st, health_check)"
| "handle sv st (Upload name content) = upload st name content"
| "handle sv st (GetQueryResponse req) = (st, predict_response sv st req)"
| "handle sv st (CreateEmbeddings req) = get_embedding_table sv st req"

definition initial_state :: "'v app_state" where
  "initial_state = \<lparr>files = Map.empty, collection = [], stdout = []\<rparr>"

inductive reachable :: "real list services \<Rightarrow> real list app_state \<Rightarrow> bool" for sv where
  start: "reachable sv initial_state"
| step: "reachable sv st \<Longrightarrow> handle sv st req = (st', resp) \<Longrightarrow> reachable sv st'"

text \<open>A sequence of requests served one after another, with the responses in order.\<close>

fun run_requests ::
  "real list services \<Rightarrow> real list app_state \<Rightarrow> request list \<Rightarrow> real list app_state \<times> response list" where
  "run_requests sv st [] = (st, [])"
| "run_requests sv st (req # reqs) =
     (let (st', resp) = handle sv st req;
          (st'', resps) = run_requests sv st' reqs
      in (st'', resp # resps))"

text \<open>
  The schema every response keeps: the health check answers 200, an upload answers
  \<open>SUCCESS\<close> with its path under \<open>pdfs/\<close>, and an \<open>InferenceOutput\<close> has status 200,
  400 or 500, the message \<open>Success\<close> with 200 and no data with an error.
\<close>

fun response_conforms :: "response \<Rightarrow> bool" where
  "response_conforms (HealthResponse code msg) = (code = 200)"
| "response_conforms (UploadResponse status output) = (status = ''SUCCESS'' \<and> prefix ''pdfs/'' output)"
| "response_conforms (Output out) =
     (status_code out \<in> {200, 400, 500} \<and>
      (status_code out = 200 \<longrightarrow> message out = ''Success'') \<and>
      (status_code out \<noteq> 200 \<longrightarrow> data out = []))"

section \<open>Custom exception helper (src/ai-compendium/business_excepts.py)\<close>

text \<open>
  \<open>custom_except\<close> (lines 20--30) assigns the class attributes of \<open>InferenceOutput\<close>
  and returns the class itself.  The class is one shared object: the model keeps its
  attributes in a store and returns a reference to it.  \<open>data\<close> is set to an empty dict,
  recorded as \<open>None\<close>.
\<close>

text \<open>
  \<open>BusinessException\<close> (lines 7--17): an exception carrying a \<open>value\<close>, whose
  \<open>str\<close> is \<open>repr\<close> of the value.  \<open>repr\<close> depends on the value's type, so it is a
  parameter.  Nothing in the code raises it.
\<close>

record 'a business_exception =
  exc_value :: 'a

definition business_exception_init :: "'a \<Rightarrow> 'a business_exception" where
  "business_exception_init value = \<lparr>exc_value = value\<rparr>"

definition business_exception_str :: "('a \<Rightarrow> string) \<Rightarrow> 'a business_exception \<Rightarrow> string" where
  "business_exception_str repr self = repr (exc_value self)"

record class_attrs =
  cls_status_code :: int
  cls_message :: string
  cls_data :: "string option"

datatype class_ref = InferenceOutputClass

definition custom_except :: "class_attrs \<Rightarrow> string \<Rightarrow> int \<Rightarrow> class_attrs \<times> class_ref" where
  "custom_except cls message' status_code' =
     (cls\<lparr>cls_status_code := status_code', cls_message := message', cls_data := None\<rparr>,
      InferenceOutputClass)"

fun read_class :: "class_attrs \<Rightarrow> class_ref \<Rightarrow> int \<times> string" where
  "read_class cls InferenceOutputClass = (cls_status_code cls, cls_message cls)"

text \<open>Fixture for the witnesses: services whose embedding of a text is its length.\<close>

definition demo_api :: "real list services" where
  "demo_api = \<lparr>tokenizer_of = char_tokenizers,
                embed = (\<lambda>b. Inr (zip [0..<length b] (map (\<lambda>t. [real (length t)]) b))),
                chat = (\<lambda>_ _. Inr ''A''), pdf_pages = (\<lambda>c. Inr [c]),
                df_to_csv = (\<lambda>_. []), base_dir = ''/app''\<rparr>"

section \<open>Lemmas\<close>

lemma get_embedding_table_generate:
  "fst (get_embedding_table sv st r) =
     fst (generate_embeddings sv st (source_file_path r) (create_embedding_data.doc_id r)) \<and>
   snd (get_embedding_table sv st r) =
     (case snd (generate_embeddings sv st (source_file_path r) (create_embedding_data.doc_id r)) of
        Inl e \<Rightarrow> error_output e
      | Inr _ \<Rightarrow> Output \<lparr>status_code = 200, message = ''Success'',
                         data = ''Embedding table created successfully''\<rparr>)"
  by (simp add: get_embedding_table_def split: prod.split sum.split)

lemma handle_collection:
  "collection (fst (handle sv st req)) = collection st \<or>
   (\<exists>d. collection (fst (handle sv st req)) = collection st @ [d] \<and> wf_doc d)"
proof (cases req)
  case (CreateEmbeddings r)
  then show ?thesis
    using generate_embeddings_collection [of sv st "source_file_path r" "create_embedding_data.doc_id r"]
      get_embedding_table_generate [of sv st r]
    by simp
qed (simp_all add: upload_def Let_def)

lemma handle_collection_prefix:
  "prefix (collection st) (collection (fst (handle sv st req)))"
  using handle_collection [of sv st req] by auto

lemma reachable_run_requests:
  "reachable sv st \<Longrightarrow> reachable sv (fst (run_requests sv st reqs))"
proof (induction reqs arbitrary: st)
  case Nil
  then show ?case by simp
next
  case (Cons req reqs)
  have "reachable sv (fst (handle sv st req))"
    using reachable.step [OF Cons.prems surjective_pairing] .
  then show ?case
    using Cons.IH by (simp add: split_def Let_def)
qed

lemma get_embedding_table_outcome:
  "get_embedding_table sv st r =
     (let oc = ingest_outcome sv (source_file_path r) (files st (source_file_path r)) (create_embedding_data.doc_id r)
      in (fst (apply_outcome st (source_file_path r) oc),
          case outcome oc of
            Inl e \<Rightarrow> error_output e
          | Inr _ \<Rightarrow> Output \<lparr>status_code = 200, message = ''Success'',
                             data = ''Embedding table created successfully''\<rparr>))"
  using get_embedding_table_generate [of sv st r]
  by (simp add: generate_embeddings_outcome apply_outcome_def Let_def prod_eq_iff)

lemma generate_embeddings_files_shrink:
  "files (fst (generate_embeddings sv st path k)) p = Some c \<Longrightarrow> files st p = Some c"
  by (simp add: generate_embeddings_outcome apply_outcome_def split: if_splits)

lemma handle_files:
  "files (fst (handle sv st req)) p = Some c \<Longrightarrow>
     files st p = Some c \<or> (\<exists>name content. req = Upload name content \<and> p = ''pdfs/'' @ name)"
proof (cases req)
  case (Upload name content)
  then show "files (fst (handle sv st req)) p = Some c \<Longrightarrow> ?thesis"
    by (auto simp: upload_def Let_def split: if_splits)
next
  case (CreateEmbeddings r)
  then show "files (fst (handle sv st req)) p = Some c \<Longrightarrow> ?thesis"
    using get_embedding_table_generate [of sv st r] generate_embeddings_files_shrink by simp
qed simp_all

lemma handle_stored:
  "d \<in> set (collection (fst (handle sv st req))) \<Longrightarrow>
     d \<in> set (collection st) \<or> (\<exists>p c k. d \<in> set (stored (ingest_outcome sv p c k)))"
proof (cases req)
  case (CreateEmbeddings r)
  then show "d \<in> set (collection (fst (handle sv st req))) \<Longrightarrow> ?thesis"
    by (auto simp: get_embedding_table_outcome apply_outcome_def Let_def)
qed (simp_all add: upload_def Let_def)

lemma error_output_conforms: "response_conforms (error_output e)"
  by (simp add: error_output_def)

lemma handle_conforms: "response_conforms (snd (handle sv st req))"
proof (cases req)
  case (GetQueryResponse r)
  then show ?thesis
    by (simp add: predict_response_def error_output_conforms Let_def split: sum.split)
next
  case (CreateEmbeddings r)
  then show ?thesis
    by (simp add: get_embedding_table_outcome error_output_conforms Let_def split: sum.split)
qed (simp_all add: health_check_def upload_def Let_def)

section \<open>Properties\<close>

text \<open>
  C20. Invariant of the service: in every state that a sequence of requests can reach
  from an empty system, every stored document is well formed, its chunk ids being
  \<open>0, 1, \<dots>\<close> in order.
\<close>

theorem reachable_wf_docs:
  "reachable sv st \<Longrightarrow> \<forall>d\<in>set (collection st). wf_doc d"
proof (induction rule: reachable.induct)
  case start
  then show ?case by (simp add: initial_state_def)
next
  case (step st req st' resp)
  then show ?case
    using handle_collection [of sv st req] by auto
qed

text \<open>
  C21. The query endpoint never answers: \<open>predict_response\<close> passes the name
  \<open>doc_id\<close>, which is bound neither in the handler nor in main.py, so every request to
  \<open>/get-query-response\<close> gets status 500 with the \<open>NameError\<close> message, whatever the
  state, the services and the request, and the state is unchanged.
\<close>

theorem predict_response_name_error:
  "handle sv st (GetQueryResponse req) =
     (st, Output \<lparr>status_code = 500, message = ''name 'doc_id' is not defined'', data = []\<rparr>)"
  by (simp add: predict_response_def lookup_name_def predict_response_locals_def main_globals_def
                error_output_def)

text \<open>
  C22. A provider fault reported as a client error: when the embedding endpoint answers
  every batch with no items, \<open>/create-embeddings\<close> on an uploaded, parsable PDF
  answers status 400 with the DataFrame's length message.
\<close>

theorem get_embedding_table_short_response:
  assumes "files st (source_file_path r) = Some content" "pdf_pages sv content = Inr pages"
    "\<And>b. embed sv b = Inr []"
  shows "snd (get_embedding_table sv st r) =
           Output \<lparr>status_code = 400, message = ''All arrays must be of the same length'', data = []\<rparr>"
proof -
  obtain cs ws where cs: "split_into_chunks (tokenizer_of sv) (str_join ''\<newline>\<newline>'' pages) = Inr (cs, ws)"
    "cs \<noteq> []"
    using split_into_chunks_Inr by blast
  have "embed_batches sv cs 0 [] = Inr []"
    using embed_batches_empty_responses [of sv cs 0 "[]", OF assms(3)] by simp
  with cs have "snd (generate_embeddings sv st (source_file_path r) (create_embedding_data.doc_id r)) =
                  Inl (ValueError ''All arrays must be of the same length'')"
    using generate_embeddings_parsed [OF assms(1,2)]
    by (simp add: create_embeddings_from_text_def create_embedding_def data_frame_def)
  then show ?thesis
    using get_embedding_table_generate [of sv st r] by (simp add: error_output_def)
qed

lemma demo_api_ingestion: "collection (fst (generate_embeddings demo_api \<lparr>files = [''pdfs/a.pdf'' \<mapsto> ''ab''], collection = [], stdout = []\<rparr> ''pdfs/a.pdf'' ''d'')) =
     [\<lparr>emb_doc.doc_id = ''d'', text_chunks = [\<lparr>chunk_id = 0, chunk_text = ''ab'', embedding = [2]\<rparr>]\<rparr>]"
  by code_simp

theorem reachable_wf_docs_witness:
  "reachable demo_api
     (fst (handle demo_api (fst (handle demo_api initial_state (Upload ''a.pdf'' ''ab'')))
            (CreateEmbeddings \<lparr>source_file_path = ''pdfs/a.pdf'', doc_id = ''d''\<rparr>))) \<and>
   wf_doc \<lparr>emb_doc.doc_id = ''d'', text_chunks = [\<lparr>chunk_id = 0, chunk_text = ''ab'', embedding = [2::real]\<rparr>]\<rparr> \<and>
   collection (fst (handle demo_api (fst (handle demo_api initial_state (Upload ''a.pdf'' ''ab'')))
            (CreateEmbeddings \<lparr>source_file_path = ''pdfs/a.pdf'', doc_id = ''d''\<rparr>))) =
     [\<lparr>emb_doc.doc_id = ''d'', text_chunks = [\<lparr>chunk_id = 0, chunk_text = ''ab'', embedding = [2]\<rparr>]\<rparr>]"
proof -
  let ?st2 = "fst (handle demo_api (fst (handle demo_api initial_state (Upload ''a.pdf'' ''ab'')))
            (CreateEmbeddings \<lparr>source_file_path = ''pdfs/a.pdf'', doc_id = ''d''\<rparr>))"
  have r: "reachable demo_api ?st2"
    by (rule reachable.step [OF reachable.step [OF reachable.start surjective_pairing] surjective_pairing])
  have s1: "fst (handle demo_api initial_state (Upload ''a.pdf'' ''ab'')) =
            \<lparr>files = [''pdfs/a.pdf'' \<mapsto> ''ab''], collection = [], stdout = []\<rparr>"
    by (simp add: upload_def initial_state_def Let_def)
  have c: "collection ?st2 =
     [\<lparr>emb_doc.doc_id = ''d'', text_chunks = [\<lparr>chunk_id = 0, chunk_text = ''ab'', embedding = [2]\<rparr>]\<rparr>]"
    using get_embedding_table_generate [of demo_api "\<lparr>files = [''pdfs/a.pdf'' \<mapsto> ''ab''], collection = [], stdout = []\<rparr>"
        "\<lparr>source_file_path = ''pdfs/a.pdf'', doc_id = ''d''\<rparr>"] demo_api_ingestion s1
    by simp
  show ?thesis
    using reachable_wf_docs [OF r] r c by simp
qed

theorem get_embedding_table_short_response_witness:
  "files \<lparr>files = [''pdfs/a.pdf'' \<mapsto> ''ab''], collection = [], stdout = []\<rparr>
     (source_file_path \<lparr>source_file_path = ''pdfs/a.pdf'', doc_id = ''d''\<rparr>) = Some ''ab'' \<and>
   pdf_pages (demo_api\<lparr>embed := \<lambda>_. Inr []\<rparr>) ''ab'' = Inr [''ab''] \<and>
   (\<forall>b. embed (demo_api\<lparr>embed := \<lambda>_. Inr []\<rparr>) b = Inr []) \<and>
   snd (get_embedding_table (demo_api\<lparr>embed := \<lambda>_. Inr []\<rparr>)
          \<lparr>files = [''pdfs/a.pdf'' \<mapsto> ''ab''], collection = [], stdout = []\<rparr>
          \<lparr>source_file_path = ''pdfs/a.pdf'', doc_id = ''d''\<rparr>) =
     Output \<lparr>status_code = 400, message = ''All arrays must be of the same length'', data = []\<rparr>"
proof -
  have f: "files \<lparr>files = [''pdfs/a.pdf'' \<mapsto> ''ab''], collection = [], stdout = []\<rparr>
     (source_file_path \<lparr>source_file_path = ''pdfs/a.pdf'', doc_id = ''d''\<rparr>) = Some ''ab''"
    by simp
  have p: "pdf_pages (demo_api\<lparr>embed := \<lambda>_. Inr []\<rparr>) ''ab'' = Inr [''ab'']"
    by (simp add: demo_api_def)
  have e: "\<And>b. embed (demo_api\<lparr>embed := \<lambda>_. Inr []\<rparr>) b = Inr []"
    by simp
  show ?thesis
    using get_embedding_table_short_response [OF f p e] f p e by simp
qed

text \<open>
  C32. The service creates files only under the upload directory's prefix: in every
  reachable state each file present was written by \<open>upload\<close> at \<open>pdfs/<name>\<close>;
  ingestion only deletes files, since it runs with \<open>save_text_file=False\<close> and
  \<open>DEBUG=False\<close>.  The prefix is textual: a name containing \<open>../\<close> leaves the
  directory (see the findings).
\<close>

theorem reachable_files_uploaded:
  "reachable sv st \<Longrightarrow> files st p = Some c \<Longrightarrow> prefix ''pdfs/'' p"
proof (induction arbitrary: c rule: reachable.induct)
  case start
  then show ?case by (simp add: initial_state_def)
next
  case (step st req st' resp)
  then have "files (fst (handle sv st req)) p = Some c" by simp
  from handle_files [OF this] show ?case
    using step.IH by auto
qed

theorem reachable_files_uploaded_witness:
  "reachable demo_api (fst (handle demo_api initial_state (Upload ''a.pdf'' ''ab''))) \<and>
   files (fst (handle demo_api initial_state (Upload ''a.pdf'' ''ab''))) ''pdfs/a.pdf'' = Some ''ab'' \<and>
   prefix ''pdfs/'' ''pdfs/a.pdf''"
proof -
  have r: "reachable demo_api (fst (handle demo_api initial_state (Upload ''a.pdf'' ''ab'')))"
    by (rule reachable.step [OF reachable.start surjective_pairing])
  have f: "files (fst (handle demo_api initial_state (Upload ''a.pdf'' ''ab''))) ''pdfs/a.pdf'' = Some ''ab''"
    by (simp add: upload_def Let_def)
  show ?thesis
    using reachable_files_uploaded [OF r f] r f by simp
qed




end
