(* ===== verification/Spec2Isabelle.thy ===== *)
theory Spec2Isabelle
  imports Endpoints
begin

text \<open>
  Verification development of the retrieval-augmented question answering service in
  \<open>src/\<close>: a FastAPI application (\<open>src/main.py\<close>) that stores uploaded PDFs, turns a
  PDF into token-bounded text chunks with one embedding each and stores them as one
  document of a Mongo collection (\<open>src/create_embeddings.py\<close>), and answers a question
  from the chunks most related to it (\<open>src/ai-compendium/api/predict_response.py\<close>).
  It is a shallow embedding: each function of the source is a HOL function of the same
  name, Python exceptions are values of the sum type \<open>py_error + 'a\<close>, and every
  definition is executable, so the witnesses evaluate them with \<open>simp\<close> and
  \<open>code_simp\<close>.

  \<^bold>\<open>Theories.\<close>
  \<^item> \<open>Prelude\<close>: the exceptions (\<open>py_error\<close>, with \<open>str(e)\<close> as \<open>exc_message\<close>),
    the constants of \<open>src/config.py\<close>, and the Python primitives the code calls
    (\<open>str_split\<close> for \<open>str.split\<close>, \<open>str_join\<close> for \<open>str.join\<close>, \<open>py_take\<close> for a
    slice with a possibly negative bound), with their round-trip lemmas.
  \<^item> \<open>Tokenizer\<close>: the tiktoken interface as a record of \<open>encode\<close>/\<open>decode\<close> per
    model name, \<open>num_tokens\<close> and \<open>truncated_string\<close> (create_embeddings.py lines
    81--125); \<open>char_tokenizers\<close> (one token per character) is the concrete tokenizer of
    the witnesses.
  \<^item> \<open>Halving\<close>: one step of the splitter, \<open>halved_by_delimiter\<close> (lines 87--108) with
    its scan \<open>halving_loop\<close>, and \<open>first_split\<close>, the loop over the delimiters
    \<open>"\n\n"\<close>, \<open>"\n"\<close>, \<open>". "\<close> (lines 147--151).
  \<^item> \<open>Chunker\<close>: the recursive splitter \<open>split_strings_into_chunks\<close> (lines 128--165)
    and \<open>split_into_chunks\<close> (lines 168--176).  The recursion is a \<open>function\<close> whose
    termination measure is the length of the text (every half is shorter), so no fuel is
    needed, and the model covers every Python int depth, negative ones included.
  \<^item> \<open>Services\<close>: the stored document (\<open>text_chunk\<close>, \<open>emb_doc\<close>), the collection of
    \<open>src/ai-compendium/__init__.py\<close> as a list in insertion order (\<open>insert_one\<close>,
    \<open>find_docs\<close>), the external services as a record of functions (tokenizers,
    embedding and chat endpoints, PDF text extraction, CSV writer), and the state
    \<open>app_state\<close>: files, collection, printed warnings.
  \<^item> \<open>Store\<close>: the package initialiser \<open>src/ai-compendium/__init__.py\<close>: the API key put
    into the environment, the lazy Mongo client, database and collection handles, the
    module cache that makes every importer share one handle, and the Mongo server as a
    store addressed by handles (\<open>insert_one_at\<close>, \<open>find_at\<close>).
  \<^item> \<open>Ranker\<close>: cosine relatedness, the stable descending sort \<open>sort_desc\<close> of
    \<open>list.sort(reverse=True)\<close>, and \<open>strings_ranked_by_similarity\<close> (lines 14--32).
    It imports \<open>Store\<close> so that the modules that use the collection come after it.
  \<^item> \<open>Prompt\<close>: the module's own \<open>num_tokens\<close> (\<open>num_tokens_prompt\<close>, lines 35--38),
    \<open>query_message\<close> with its budgeted loop \<open>add_articles\<close> (lines 41--58) and \<open>get_query_response\<close> (lines 61--90) with the fallback answer.
  \<^item> \<open>Ingestion\<close>: \<open>convert_to_text\<close>, the batched embedding loop \<open>embed_batches\<close>
    (a \<open>function\<close> with the measure \<open>length chunks - batch_start\<close>),
    \<open>create_embedding\<close>, \<open>create_embeddings_from_text\<close> and \<open>generate_embeddings\<close>
    (create_embeddings.py lines 24--78 and 179--211), as state-passing functions.
  \<^item> \<open>Endpoints\<close>: the pydantic models of \<open>src/io_models.py\<close>, the handlers of
    \<open>src/main.py\<close> and their status mapping (\<open>ValueError\<close> to 400, anything else to
    500), \<open>custom_except\<close> and \<open>BusinessException\<close> of \<open>business_excepts.py\<close>, the
    response schema \<open>response_conforms\<close>, and the service as a state
    machine: \<open>handle\<close> serves one request, \<open>reachable\<close> is the inductive set of states
    reachable from the empty system, \<open>run_requests\<close> serves a sequence.
  \<^item> This theory: properties of whole request sequences, across the components.

  \<^bold>\<open>What the lemmas show.\<close>
  \<^item> Splitter (Halving, Chunker): every chunk fits the token budget (C1); without a
    truncation warning the chunks are the text cut at delimiters (C2); at most
    \<open>2^depth\<close> chunks (C3); a depth of at least the text length behaves as unbounded
    (C4); sections are split independently and never merged (C5); the halving scan is its
    first-local-minimum specification (C6) and round-trips (C7); a text starting with the
    delimiter is never split on it (C8, a defect); the delimiter loop takes the first
    delimiter in priority order that gives two non-empty sides (C28); every warning
    records a before count above the budget and the budget as the after count (C29); the
    specification's base-case example (C26).
  \<^item> Retrieval and answering (Ranker, Prompt): the ranking sort is the unique stable
    descending permutation (C9); top-n retrieval returns the best scores in order (C10),
    with the specification's example (C11) and the error paths (C12); the default
    relatedness is in \<open>[-1, 1]\<close>, 0 on orthogonal and 1 on parallel embeddings (C31); the prompt is
    greedy within its budget (C13) but unchecked when no text fits (C34); the sentinel never escapes (C14); re-ingestion never
    changes answers (C15, a defect).
  \<^item> Ingestion: batching is transparent (C16) and equals a reference loop over groups
    of \<open>BATCH_SIZE\<close> (C30); malformed provider answers fail without storing (C17,
    C18); the PDF is deleted before embedding (C19).
  \<^item> Service (Endpoints, this theory): every reachable state stores only well-formed
    documents (C20) whose chunks all fit \<open>MAX_TOKENS\<close> (C33); the query endpoint fails with \<open>NameError\<close> on every request
    (C21, a defect, also in the end-to-end scenario C23); a provider fault is reported as
    a client error (C22); a retried ingestion fails (C24); requests only append to the
    collection (C25); every file present was uploaded under the textual prefix
    \<open>pdfs/\<close> (C32); ingestions of different files and ids commute (C27), the
    specification's independence of concurrent ingestions, shown on the sequential model
    through \<open>ingest_outcome\<close> (Ingestion), which describes one ingestion as a value
    depending only on the content of its file; \<open>custom_except\<close> returns one shared
    carrier object (C35); every response conforms to its schema (C37); from any state an
    upload followed by an ingestion stores the document when the provider behaves (C38,
    the liveness of ingestion).
  \<^item> Store: both modules that import the package share one collection handle, so the
    single collection of \<open>app_state\<close> is the server's collection behind it (C36).

  \<^bold>\<open>Bounds and fuel.\<close>  No fuel is used.  The splitter, the halving scan and the
  batch loop are \<open>function\<close>s with measures (text length, pieces left, chunks left), so
  they are total for every input, including negative Python ints as depth.  The
  witnesses use a one-token-per-character tokenizer and short texts, so that they
  evaluate by \<open>code_simp\<close> in seconds.

  \<^bold>\<open>Not modelled.\<close>  The bytes of the PDF format and of tiktoken's byte-pair
  encoding (both are parameters of the services record, constrained only where a lemma
  says so); network transport, FastAPI routing and pydantic validation (a request is
  already a record); \<open>os.makedirs\<close>, which cannot fail observably here; reading the
  environment in \<open>config.py\<close>; the network connection to Mongo (pymongo connects lazily
  and the model's store is always reachable); floating point: embeddings and scores are reals, so
  scipy's NaN for a zero vector is not represented (the model's cosine distance is
  defined there).  \<open>repr\<close> of an arbitrary value is a parameter of
  \<open>business_exception_str\<close>.  \<open>print\<close> calls other than the truncation warning are
  not modelled, being output only.
\<close>

definition scenario :: "request list" where
  "scenario = [Upload ''a.pdf'' ''ab'',
               CreateEmbeddings \<lparr>source_file_path = ''pdfs/a.pdf'', doc_id = ''d''\<rparr>,
               GetQueryResponse \<lparr>query_text = ''q'', doc_id = ''d''\<rparr>]"

lemma generate_embeddings_demo:
  "generate_embeddings demo_api \<lparr>files = [''pdfs/a.pdf'' \<mapsto> ''ab''], collection = [], stdout = []\<rparr> ''pdfs/a.pdf'' ''d'' =
   (\<lparr>files = Map.empty,
     collection = [\<lparr>emb_doc.doc_id = ''d'', text_chunks = [\<lparr>chunk_id = 0, chunk_text = ''ab'', embedding = [2]\<rparr>]\<rparr>],
     stdout = []\<rparr>, Inr ''/app/temp_embeddings.csv'')"
proof -
  let ?g = "generate_embeddings demo_api \<lparr>files = [''pdfs/a.pdf'' \<mapsto> ''ab''], collection = [], stdout = []\<rparr> ''pdfs/a.pdf'' ''d''"
  have r: "snd ?g = Inr ''/app/temp_embeddings.csv''" "stdout (fst ?g) = []"
    by code_simp+
  have f: "files (fst ?g) = Map.empty"
    using generate_embeddings_parsed [of _ "''pdfs/a.pdf''" "''ab''" demo_api "[''ab'']" "''d''"]
    by (simp add: demo_api_def create_embeddings_from_text_files)
  have "fst ?g = \<lparr>files = Map.empty,
     collection = [\<lparr>emb_doc.doc_id = ''d'', text_chunks = [\<lparr>chunk_id = 0, chunk_text = ''ab'', embedding = [2]\<rparr>]\<rparr>],
     stdout = []\<rparr>"
    using demo_api_ingestion r f by (intro app_state.equality) simp_all
  with r show ?thesis
    by (simp add: prod_eq_iff)
qed


text \<open>
  C24. Retrying a failed ingestion is not idempotent: once \<open>/create-embeddings\<close> has
  parsed an uploaded PDF, whatever happened after, the same request again answers
  status 500 with Python's \<open>FileNotFoundError\<close> message for the path.
\<close>

theorem get_embedding_table_retry:
  assumes "files st (source_file_path r) = Some content" "pdf_pages sv content = Inr pages"
  shows "snd (get_embedding_table sv (fst (get_embedding_table sv st r)) r) =
           Output \<lparr>status_code = 500,
                   message = ''[Errno 2] No such file or directory: '' @ [CHR 0x27] @ source_file_path r @ [CHR 0x27],
                   data = []\<rparr>"
proof -
  have gone: "files (fst (get_embedding_table sv st r)) (source_file_path r) = None"
    using get_embedding_table_generate [of sv st r] generate_embeddings_parsed [OF assms]
    by (simp add: create_embeddings_from_text_files)
  show ?thesis
    using get_embedding_table_generate [of sv "fst (get_embedding_table sv st r)" r]
      generate_embeddings_missing [OF gone]
    by (simp add: error_output_def)
qed

theorem get_embedding_table_retry_witness:
  "files \<lparr>files = [''pdfs/a.pdf'' \<mapsto> ''ab''], collection = [], stdout = []\<rparr>
     (source_file_path \<lparr>source_file_path = ''pdfs/a.pdf'', doc_id = ''d''\<rparr>) = Some ''ab'' \<and>
   pdf_pages (demo_api\<lparr>embed := \<lambda>_. Inl (ProviderError ''unavailable'')\<rparr>) ''ab'' = Inr [''ab''] \<and>
   snd (get_embedding_table (demo_api\<lparr>embed := \<lambda>_. Inl (ProviderError ''unavailable'')\<rparr>)
          (fst (get_embedding_table (demo_api\<lparr>embed := \<lambda>_. Inl (ProviderError ''unavailable'')\<rparr>)
                 \<lparr>files = [''pdfs/a.pdf'' \<mapsto> ''ab''], collection = [], stdout = []\<rparr>
                 \<lparr>source_file_path = ''pdfs/a.pdf'', doc_id = ''d''\<rparr>))
          \<lparr>source_file_path = ''pdfs/a.pdf'', doc_id = ''d''\<rparr>) =
     Output \<lparr>status_code = 500, message = ''[Errno 2] No such file or directory: '' @ [CHR 0x27] @ ''pdfs/a.pdf'' @ [CHR 0x27], data = []\<rparr>"
proof -
  have f: "files \<lparr>files = [''pdfs/a.pdf'' \<mapsto> ''ab''], collection = [], stdout = []\<rparr>
     (source_file_path \<lparr>source_file_path = ''pdfs/a.pdf'', doc_id = ''d''\<rparr>) = Some ''ab''"
    by simp
  have p: "pdf_pages (demo_api\<lparr>embed := \<lambda>_. Inl (ProviderError ''unavailable'')\<rparr>) ''ab'' = Inr [''ab'']"
    by (simp add: demo_api_def)
  show ?thesis
    using get_embedding_table_retry [OF f p] f p by simp
qed

text \<open>
  C25. Stored documents are immutable: whatever sequence of requests the service
  serves, from whatever state, the collection it started with is a prefix of the
  collection it ends with; requests only append documents.
\<close>

theorem run_requests_collection_prefix:
  "prefix (collection st) (collection (fst (run_requests sv st reqs)))"
proof (induction reqs arbitrary: st)
  case Nil
  then show ?case by simp
next
  case (Cons req reqs)
  have "prefix (collection st) (collection (fst (handle sv st req)))"
    by (rule handle_collection_prefix)
  moreover have "prefix (collection (fst (handle sv st req)))
                        (collection (fst (run_requests sv (fst (handle sv st req)) reqs)))"
    by (rule Cons.IH)
  ultimately show ?case
    by (simp add: split_def Let_def)
qed

text \<open>
  C27. Ingestions of different documents are independent: two \<open>/create-embeddings\<close>
  requests for different files and different ids get the same responses in either
  order, leave the same files, and leave the same documents retrievable under every id.
\<close>

theorem ingestions_commute:
  assumes "source_file_path r1 \<noteq> source_file_path r2"
    "create_embedding_data.doc_id r1 \<noteq> create_embedding_data.doc_id r2"
  shows "snd (run_requests sv st [CreateEmbeddings r1, CreateEmbeddings r2]) =
           rev (snd (run_requests sv st [CreateEmbeddings r2, CreateEmbeddings r1])) \<and>
         files (fst (run_requests sv st [CreateEmbeddings r1, CreateEmbeddings r2])) =
           files (fst (run_requests sv st [CreateEmbeddings r2, CreateEmbeddings r1])) \<and>
         find_docs (collection (fst (run_requests sv st [CreateEmbeddings r1, CreateEmbeddings r2]))) k =
           find_docs (collection (fst (run_requests sv st [CreateEmbeddings r2, CreateEmbeddings r1]))) k"
proof -
  let ?p1 = "source_file_path r1" and ?p2 = "source_file_path r2"
  let ?o1 = "ingest_outcome sv ?p1 (files st ?p1) (create_embedding_data.doc_id r1)"
  let ?o2 = "ingest_outcome sv ?p2 (files st ?p2) (create_embedding_data.doc_id r2)"
  have ids: "\<forall>d\<in>set (stored ?o1). emb_doc.doc_id d = create_embedding_data.doc_id r1"
            "\<forall>d\<in>set (stored ?o2). emb_doc.doc_id d = create_embedding_data.doc_id r2"
    using ingest_outcome_stored by blast+
  have p: "?p1 \<noteq> ?p2" "?p2 \<noteq> ?p1" using assms(1) by auto
  show ?thesis
    using find_docs_stored_commute [OF ids assms(2), of "collection st" k] p
    by (simp add: get_embedding_table_outcome apply_outcome_def Let_def fun_upd_twist)
qed

theorem ingestions_commute_witness:
  "source_file_path \<lparr>source_file_path = ''pdfs/a.pdf'', doc_id = ''a''\<rparr> \<noteq>
     source_file_path \<lparr>source_file_path = ''pdfs/b.pdf'', doc_id = ''b''\<rparr> \<and>
   create_embedding_data.doc_id \<lparr>source_file_path = ''pdfs/a.pdf'', doc_id = ''a''\<rparr> \<noteq>
     create_embedding_data.doc_id \<lparr>source_file_path = ''pdfs/b.pdf'', doc_id = ''b''\<rparr> \<and>
   find_docs (collection (fst (run_requests demo_api \<lparr>files = [''pdfs/a.pdf'' \<mapsto> ''ab'', ''pdfs/b.pdf'' \<mapsto> ''c''], collection = [], stdout = []\<rparr>
       [CreateEmbeddings \<lparr>source_file_path = ''pdfs/a.pdf'', doc_id = ''a''\<rparr>,
        CreateEmbeddings \<lparr>source_file_path = ''pdfs/b.pdf'', doc_id = ''b''\<rparr>]))) ''a'' =
   find_docs (collection (fst (run_requests demo_api \<lparr>files = [''pdfs/a.pdf'' \<mapsto> ''ab'', ''pdfs/b.pdf'' \<mapsto> ''c''], collection = [], stdout = []\<rparr>
       [CreateEmbeddings \<lparr>source_file_path = ''pdfs/b.pdf'', doc_id = ''b''\<rparr>,
        CreateEmbeddings \<lparr>source_file_path = ''pdfs/a.pdf'', doc_id = ''a''\<rparr>]))) ''a''"
proof -
  have h1: "source_file_path \<lparr>source_file_path = ''pdfs/a.pdf'', doc_id = ''a''\<rparr> \<noteq>
     source_file_path \<lparr>source_file_path = ''pdfs/b.pdf'', doc_id = ''b''\<rparr>"
    by simp
  have h2: "create_embedding_data.doc_id \<lparr>source_file_path = ''pdfs/a.pdf'', doc_id = ''a''\<rparr> \<noteq>
     create_embedding_data.doc_id \<lparr>source_file_path = ''pdfs/b.pdf'', doc_id = ''b''\<rparr>"
    by simp
  show ?thesis
    using ingestions_commute [OF h1 h2, of demo_api "\<lparr>files = [''pdfs/a.pdf'' \<mapsto> ''ab'', ''pdfs/b.pdf'' \<mapsto> ''c''], collection = [], stdout = []\<rparr>" "''a''"] h1 h2 by blast
qed

text \<open>
  C33. Every stored chunk fits the answering model's budget: when that model's encoding
  does not grow on re-encoding a decoded prefix, in every reachable state each chunk of
  each stored document has at most \<open>MAX_TOKENS\<close> tokens, truncated chunks included.
  This composes the splitter's bound with the ingestion pipeline and the endpoints.
\<close>

theorem reachable_chunks_within_budget:
  assumes "reencode_bounded (tokenizer_of sv ANSWERING_MODEL)"
  shows "reachable sv st \<Longrightarrow> d \<in> set (collection st) \<Longrightarrow> x \<in> set (text_chunks d) \<Longrightarrow>
           int (num_tokens (tokenizer_of sv) (chunk_text x) ANSWERING_MODEL) \<le> MAX_TOKENS"
proof (induction arbitrary: d rule: reachable.induct)
  case start
  then show ?case by (simp add: initial_state_def)
next
  case (step st req st' resp)
  then have "d \<in> set (collection (fst (handle sv st req)))" by simp
  from handle_stored [OF this] show ?case
  proof
    assume "d \<in> set (collection st)"
    then show ?thesis using step.IH step.prems(2) by blast
  next
    assume "\<exists>p c k. d \<in> set (stored (ingest_outcome sv p c k))"
    then obtain t cs ws where "split_into_chunks (tokenizer_of sv) t = Inr (cs, ws)" "chunk_text x \<in> set cs"
      using ingest_outcome_stored_chunks step.prems(2) by meson
    then show ?thesis
      using split_into_chunks_within_budget [of "tokenizer_of sv", OF assms] by blast
  qed
qed

theorem reachable_chunks_within_budget_witness:
  "reencode_bounded (tokenizer_of demo_api ANSWERING_MODEL) \<and>
   reachable demo_api (fst (run_requests demo_api initial_state (take 2 scenario))) \<and>
   \<lparr>emb_doc.doc_id = ''d'', text_chunks = [\<lparr>chunk_id = 0, chunk_text = ''ab'', embedding = [2]\<rparr>]\<rparr>
     \<in> set (collection (fst (run_requests demo_api initial_state (take 2 scenario)))) \<and>
   \<lparr>chunk_id = 0, chunk_text = ''ab'', embedding = [2::real]\<rparr> \<in> set [\<lparr>chunk_id = 0, chunk_text = ''ab'', embedding = [2]\<rparr>] \<and>
   int (num_tokens (tokenizer_of demo_api) ''ab'' ANSWERING_MODEL) \<le> MAX_TOKENS"
proof -
  have b: "reencode_bounded (tokenizer_of demo_api ANSWERING_MODEL)"
    by (simp add: demo_api_def char_tokenizers_reencode_bounded)
  have r: "reachable demo_api (fst (run_requests demo_api initial_state (take 2 scenario)))"
    by (rule reachable_run_requests [OF reachable.start])
  have c: "collection (fst (run_requests demo_api initial_state (take 2 scenario))) =
     [\<lparr>emb_doc.doc_id = ''d'', text_chunks = [\<lparr>chunk_id = 0, chunk_text = ''ab'', embedding = [2]\<rparr>]\<rparr>]"
    by (simp add: scenario_def initial_state_def upload_def Let_def get_embedding_table_def
        generate_embeddings_demo)
  show ?thesis
    using reachable_chunks_within_budget [OF b r,
        of "\<lparr>emb_doc.doc_id = ''d'', text_chunks = [\<lparr>chunk_id = 0, chunk_text = ''ab'', embedding = [2]\<rparr>]\<rparr>"
           "\<lparr>chunk_id = 0, chunk_text = ''ab'', embedding = [2]\<rparr>"] b r c
    by simp
qed



end
